theory Spec2Isabelle
  imports Complex_Main
begin

section \<open>Data model of the revenue calculator\<close>

text \<open>
  The calculator of \<^verbatim>\<open>bank.py\<close> works on JSON dictionaries returned by the game's
  API.  A city and a nation are records with the keys the code reads.  Improvement and
  unit counts are Python integers (\<open>int\<close>); infrastructure, land and radiation levels
  are floating-point numbers, here exact reals.  A founding date is the ordinal of its
  day, so that the difference of two dates is their number of days.
\<close>

record city =
  date :: int
  infrastructure :: real
  land :: real
  oil_refinery :: int
  steel_mill :: int
  aluminum_refinery :: int
  munitions_factory :: int
  uranium_mine :: int
  oil_well :: int
  iron_mine :: int
  coal_mine :: int
  bauxite_mine :: int
  lead_mine :: int
  farm :: int
  subway :: int
  stadium :: int
  shopping_mall :: int
  bank :: int
  supermarket :: int
  police_station :: int
  hospital :: int
  recycling_center :: int
  nuclear_power :: int
  coal_power :: int
  oil_power :: int
  wind_power :: int

record nation =
  nation_name :: string
  flag :: string
  num_cities :: int
  alliance_id :: "int option"
  color :: string
  continent :: string
  domestic_policy :: string
  soldiers :: int
  tanks :: int
  aircraft :: int
  ships :: int
  spies :: int
  missiles :: int
  nukes :: int
  offensive_wars_count :: int
  defensive_wars_count :: int
  bauxite_works :: bool
  emergency_gasoline_reserve :: bool
  iron_works :: bool
  uranium_enrichment_program :: bool
  specialized_police_training_program :: bool
  international_trade_center :: bool
  telecommunications_satellite :: bool
  clinical_research_center :: bool
  green_technologies :: bool
  arms_stockpile :: bool
  government_support_agency :: bool
  mass_irrigation :: bool
  fallout_shelter :: bool
  bureau_of_domestic_affairs :: bool
  recycling_initiative :: bool
  cities :: "city list"

text \<open>The radiation table of \<^verbatim>\<open>game_info\<close>; of the game date only the month is read.\<close>

record radiation_levels =
  rad_global :: real
  north_america :: real
  south_america :: real
  europe :: real
  africa :: real
  asia :: real
  australia :: real
  antarctica :: real

record game_info =
  game_date_month :: nat
  radiation :: radiation_levels

text \<open>The eleven keys of the \<^verbatim>\<open>production\<close> dictionary, in the order the code lists them.\<close>

datatype resource =
  Food | Uranium | Oil | Iron | Coal | Bauxite | Lead | Aluminum | Gasoline | Munitions | Steel

definition resources :: "resource list" where
  "resources = [Food, Uranium, Oil, Iron, Coal, Bauxite, Lead, Aluminum, Gasoline, Munitions, Steel]"

type_synonym production = "resource \<Rightarrow> real"

record income_acc =
  gross_income :: real
  military_upkeep :: real
  improvement_upkeep :: real


section \<open>Python arithmetic\<close>

text \<open>
  \<^verbatim>\<open>round(x)\<close> with one argument returns the nearest integer and rounds a tie to the
  even neighbour.
\<close>

definition py_round :: "real \<Rightarrow> int" where
  "py_round x =
     (let f = \<lfloor>x\<rfloor>; d = x - of_int f
      in if d < 1 / 2 then f
         else if 1 / 2 < d then f + 1
         else if even f then f else f + 1)"

text \<open>
  A Python float is a binary64 number: the result of an operation is the real result rounded
  to 53 significant bits, a tie going to the even significand.  The exponent range is not
  bounded here: the revenue formulas stay far from overflow and from the subnormal numbers.
\<close>

definition binary64 :: "real \<Rightarrow> real" where
  "binary64 x =
     (if x = 0 then 0
      else let e = \<lfloor>log 2 \<bar>x\<bar>\<rfloor>; ulp = 2 powr (of_int e - 52)
           in of_int (py_round (x / ulp)) * ulp)"

text \<open>
  The rounding of \<^verbatim>\<open>round\<close> is a jump, so the product it is applied to is modelled
  operation by operation in binary64.  Everywhere else the arithmetic is continuous and is
  modelled by exact reals.

  \<^verbatim>\<open>a // b\<close> on floating-point operands is the floor of the quotient.
\<close>

definition floordiv :: "real \<Rightarrow> real \<Rightarrow> real" where
  "floordiv a b = of_int \<lfloor>a / b\<rfloor>"

section \<open>The per-city pass of \<^verbatim>\<open>calculate_nation_revenue\<close>\<close>

subsection \<open>Age, base population and food demand\<close>

definition age_days :: "int \<Rightarrow> city \<Rightarrow> int" where
  "age_days truncated_date c = max 1 (truncated_date - date c)"

definition ln_age :: "int \<Rightarrow> city \<Rightarrow> real" where
  "ln_age truncated_date c = ln (of_int (age_days truncated_date c))"

definition city_age_modifier :: "int \<Rightarrow> city \<Rightarrow> real" where
  "city_age_modifier truncated_date c = 1 + max (ln_age truncated_date c / 15) 0"

definition base_population :: "city \<Rightarrow> real" where
  "base_population c = infrastructure c * 100"

definition population_formula :: "int \<Rightarrow> city \<Rightarrow> real" where
  "population_formula truncated_date c =
     ((base_population c * base_population c) / 125000000)
     + ((base_population c * city_age_modifier truncated_date c - base_population c) / 850)"

subsection \<open>Food production\<close>

text \<open>
  The farm count is an integer: \<^verbatim>\<open>farm - 1\<close> is exact, and an integer operand of a float
  operation is converted to a float first.
\<close>

definition improvement_specialization_bonus :: "city \<Rightarrow> real" where
  "improvement_specialization_bonus c =
     binary64 (1 + binary64 (binary64 (0.5 * binary64 (of_int (farm c - 1))) / (20 - 1)))"

definition food_production_rate :: "nation \<Rightarrow> city \<Rightarrow> real" where
  "food_production_rate n c =
     (let food_production_rate =
            (if mass_irrigation n then binary64 (land c / 400) else binary64 (land c / 500))
      in if continent n = ''an'' then binary64 (food_production_rate * 0.5)
         else food_production_rate)"

text \<open>The argument of \<^verbatim>\<open>round\<close>: three float multiplications, from left to right.\<close>

definition food_product_100 :: "nation \<Rightarrow> city \<Rightarrow> real" where
  "food_product_100 n c =
     binary64 (binary64 (binary64 (binary64 (of_int (farm c))
                                    * improvement_specialization_bonus c)
                          * food_production_rate n c)
               * 100)"

definition base_food_production :: "nation \<Rightarrow> city \<Rightarrow> real" where
  "base_food_production n c = of_int (py_round (food_product_100 n c)) / 100"

definition hemisphere :: "nation \<Rightarrow> string" where
  "hemisphere n = (if continent n \<in> set [''sa'', ''as'', ''af''] then ''Southern'' else ''Northern'')"

definition seasonal_modifier :: "nation \<Rightarrow> game_info \<Rightarrow> real" where
  "seasonal_modifier n gi =
     (if continent n \<noteq> ''an'' then
        (if hemisphere n = ''Northern'' then
           (if game_date_month gi \<in> set [12, 1, 2] then 0.8
            else if game_date_month gi \<in> set [6, 7, 8] then 1.2
            else 1)
         else
           (if game_date_month gi \<in> set [12, 1, 2] then 1.2
            else if game_date_month gi \<in> set [6, 7, 8] then 0.8
            else 1))
      else 1)"

text \<open>The dictionary \<^verbatim>\<open>radiation\<close> read with \<^verbatim>\<open>.get(nation["continent"], 0)\<close>.\<close>

definition continent_radiation :: "nation \<Rightarrow> game_info \<Rightarrow> real" where
  "continent_radiation n gi =
     (if continent n = ''na'' then north_america (radiation gi)
      else if continent n = ''sa'' then south_america (radiation gi)
      else if continent n = ''as'' then asia (radiation gi)
      else if continent n = ''an'' then antarctica (radiation gi)
      else if continent n = ''eu'' then europe (radiation gi)
      else if continent n = ''af'' then africa (radiation gi)
      else if continent n = ''au'' then australia (radiation gi)
      else 0)"

definition radiation_index :: "nation \<Rightarrow> game_info \<Rightarrow> real" where
  "radiation_index n gi = continent_radiation n gi + rad_global (radiation gi)"

definition fallout_shelter_multiplier :: "nation \<Rightarrow> real" where
  "fallout_shelter_multiplier n = (if fallout_shelter n then 0.85 else 1)"

definition radiation_penalty :: "nation \<Rightarrow> game_info \<Rightarrow> real" where
  "radiation_penalty n gi = (radiation_index n gi / (- 1000)) * fallout_shelter_multiplier n"

definition food_production :: "nation \<Rightarrow> game_info \<Rightarrow> city \<Rightarrow> real" where
  "food_production n gi c =
     max (base_food_production n c * seasonal_modifier n gi * (1 + radiation_penalty n gi)) 0"

subsection \<open>Power plants\<close>

text \<open>
  Infrastructure is a floating-point number, so the first operand of each \<^verbatim>\<open>min\<close> is a
  floor division of floats; the plant counts are integers and theirs is integer division.
\<close>

definition nuclear_smallest_two :: "city \<Rightarrow> real" where
  "nuclear_smallest_two c =
     (let current_infrastructure = floordiv (infrastructure c + 999) 1000;
          infrastructure_can_power = of_int (nuclear_power c * 2000 div 1000)
      in min current_infrastructure infrastructure_can_power)"

definition coal_smallest_two :: "city \<Rightarrow> real" where
  "coal_smallest_two c =
     (let current_infrastructure = floordiv (infrastructure c + 99) 100;
          infrastructure_can_power = of_int (coal_power c * 500 div 100)
      in min current_infrastructure infrastructure_can_power)"

definition oil_smallest_two :: "city \<Rightarrow> real" where
  "oil_smallest_two c =
     (let current_infrastructure = floordiv (infrastructure c + 99) 100;
          infrastructure_can_power = of_int (oil_power c * 500 div 100)
      in min current_infrastructure infrastructure_can_power)"

subsection \<open>Project multipliers and factories\<close>

datatype multiplier_key = MOil | MSteel | MUranium | MAluminum | MMunitions

definition multipliers :: "nation \<Rightarrow> multiplier_key \<Rightarrow> real" where
  "multipliers n k =
     (case k of
        MAluminum \<Rightarrow> (if bauxite_works n then 1.36 else 1)
      | MOil \<Rightarrow> (if emergency_gasoline_reserve n then 2 else 1)
      | MSteel \<Rightarrow> (if iron_works n then 1.36 else 1)
      | MMunitions \<Rightarrow> (if arms_stockpile n then 1.20 else 1)
      | MUranium \<Rightarrow> (if uranium_enrichment_program n then 2 else 1))"

text \<open>The factor \<^verbatim>\<open>(1 + (0.5 * (count - 1)) / (5 - 1))\<close> that every factory and mine line repeats.\<close>

definition specialization :: "int \<Rightarrow> real" where
  "specialization count = 1 + (0.5 * (of_int count - 1)) / (5 - 1)"


subsection \<open>Commerce\<close>

definition commerce_cap :: "nation \<Rightarrow> int" where
  "commerce_cap n =
     (if international_trade_center n then
        (if telecommunications_satellite n then 125 else 115)
      else 100)"

definition commerce_addition :: "nation \<Rightarrow> int" where
  "commerce_addition n =
     (let commerce_addition = 0;
          commerce_addition =
            (if international_trade_center n then commerce_addition + 1 else commerce_addition);
          commerce_addition =
            (if specialized_police_training_program n then commerce_addition + 4
             else commerce_addition);
          commerce_addition =
            (if telecommunications_satellite n then commerce_addition + 2 else commerce_addition)
      in commerce_addition)"

definition population_density :: "city \<Rightarrow> real" where
  "population_density c = (if land c > 0 then base_population c / land c else 0)"

definition commerce :: "nation \<Rightarrow> city \<Rightarrow> int" where
  "commerce n c =
     0 + min (supermarket c * 4 + bank c * 6 + shopping_mall c * 8
               + stadium c * 10 + subway c * 8 + commerce_addition n)
             (commerce_cap n)"

subsection \<open>Police, hospitals, green technologies, upkeep and pollution\<close>

definition police_modifier_modifier :: "nation \<Rightarrow> real" where
  "police_modifier_modifier n = (if specialized_police_training_program n then 3.5 else 2.5)"

definition hospital_modifier_modifier :: "nation \<Rightarrow> real" where
  "hospital_modifier_modifier n = (if clinical_research_center n then 3.5 else 2.5)"

definition farm_greentech_multiplier :: "nation \<Rightarrow> real" where
  "farm_greentech_multiplier n = (if green_technologies n then 0.5 else 1)"

definition manu_greentech_multiplier :: "nation \<Rightarrow> real" where
  "manu_greentech_multiplier n = (if green_technologies n then 0.75 else 1)"

definition subway_greentech_addition :: "nation \<Rightarrow> int" where
  "subway_greentech_addition n = (if green_technologies n then 25 else 0)"

definition resource_production_upkeep_multiplier :: "nation \<Rightarrow> real" where
  "resource_production_upkeep_multiplier n = (if green_technologies n then 0.9 else 1)"

definition city_improvement_upkeep :: "nation \<Rightarrow> city \<Rightarrow> real" where
  "city_improvement_upkeep n c =
     of_int (coal_power c * 1200)
     + of_int (oil_power c * 1800)
     + of_int (nuclear_power c * 10500)
     + of_int (wind_power c * 500)
     + (of_int (coal_mine c * 400) * resource_production_upkeep_multiplier n)
     + (of_int (iron_mine c * 1600) * resource_production_upkeep_multiplier n)
     + (of_int (lead_mine c * 1500) * resource_production_upkeep_multiplier n)
     + (of_int (farm c * 300) * resource_production_upkeep_multiplier n)
     + (of_int (oil_well c * 600) * resource_production_upkeep_multiplier n)
     + (of_int (bauxite_mine c * 1600) * resource_production_upkeep_multiplier n)
     + (of_int (uranium_mine c * 5000) * resource_production_upkeep_multiplier n)
     + (of_int (oil_refinery c * 4000) * resource_production_upkeep_multiplier n)
     + (of_int (steel_mill c * 4000) * resource_production_upkeep_multiplier n)
     + (of_int (aluminum_refinery c * 2500) * resource_production_upkeep_multiplier n)
     + (of_int (munitions_factory c * 3500) * resource_production_upkeep_multiplier n)
     + of_int (police_station c * 750)
     + of_int (hospital c * 1000)
     + of_int (recycling_center c * 2500)
     + of_int (subway c * 3250)
     + of_int (supermarket c * 600)
     + of_int (bank c * 1800)
     + of_int (shopping_mall c * 5400)
     + of_int (stadium c * 12150)"

definition pollution_index :: "nation \<Rightarrow> city \<Rightarrow> real" where
  "pollution_index n c =
     of_int (coal_power c * 8)
     + of_int (oil_power c * 6)
     + of_int (bauxite_mine c * 12)
     + of_int (coal_mine c * 12)
     + (of_int (farm c * 2) * farm_greentech_multiplier n)
     + of_int (iron_mine c * 12)
     + of_int (lead_mine c * 12)
     + of_int (oil_well c * 12)
     + of_int (uranium_mine c * 20)
     + (of_int (oil_refinery c * 32) * manu_greentech_multiplier n)
     + (of_int (steel_mill c * 40) * manu_greentech_multiplier n)
     + (of_int (aluminum_refinery c * 40) * manu_greentech_multiplier n)
     + (of_int (munitions_factory c * 32) * manu_greentech_multiplier n)
     + of_int (police_station c * 1)
     + of_int (hospital c * 4)
     - of_int (recycling_center c * (if recycling_initiative n then 75 else 70))
     - of_int (subway c * (45 + subway_greentech_addition n))
     + of_int (shopping_mall c * 2)
     + of_int (stadium c * 5)"

definition police_modifier :: "nation \<Rightarrow> city \<Rightarrow> real" where
  "police_modifier n c = of_int (police_station c) * police_modifier_modifier n"

definition pollution_modifier :: "nation \<Rightarrow> city \<Rightarrow> real" where
  "pollution_modifier n c = pollution_index n c * 0.05"

definition hospital_modifier :: "nation \<Rightarrow> city \<Rightarrow> real" where
  "hospital_modifier n c = of_int (hospital c) * hospital_modifier_modifier n"

subsection \<open>Crime, disease and population\<close>

definition crime_rate :: "nation \<Rightarrow> city \<Rightarrow> real" where
  "crime_rate n c =
     (of_int ((103 - commerce n c) * (103 - commerce n c)) + (infrastructure c * 100)) / 111111
     - police_modifier n c"

definition disease_rate :: "nation \<Rightarrow> city \<Rightarrow> real" where
  "disease_rate n c =
     ((((population_density c * population_density c) * 0.01) - 25) / 100)
     + (base_population c / 100000) + pollution_modifier n c - hospital_modifier n c"

definition population :: "nation \<Rightarrow> int \<Rightarrow> city \<Rightarrow> real" where
  "population n truncated_date c =
     (let population =
            base_population c
            - (max ((disease_rate n c * 100 * infrastructure c) / 100) 0)
            - (max ((crime_rate n c / 10) * (100 * infrastructure c) - 25) 0)
      in population * (1 + ln_age truncated_date c / 15))"

definition city_gross_income :: "nation \<Rightarrow> int \<Rightarrow> city \<Rightarrow> real" where
  "city_gross_income n truncated_date c =
     ((((of_int (commerce n c) / 50) * 0.725) + 0.725) * population n truncated_date c)"

subsection \<open>One iteration of the city loop\<close>

text \<open>
  The body of \<^verbatim>\<open>for city in nation["cities"]\<close>: every assignment to the two
  dictionaries \<^verbatim>\<open>production\<close> and \<^verbatim>\<open>income\<close>, in the order of the source.
\<close>

definition city_step ::
  "nation \<Rightarrow> game_info \<Rightarrow> int \<Rightarrow> production \<times> income_acc \<Rightarrow> city \<Rightarrow> production \<times> income_acc"
where
  "city_step n gi truncated_date s c =
     (let production = fst s; income = snd s;
          production = production(Food := production Food - population_formula truncated_date c);
          production = production(Food := production Food + food_production n gi c * 12);
          production = production(Uranium := production Uranium - nuclear_smallest_two c * 2.4);
          production = production(Coal := production Coal - coal_smallest_two c * 1.2);
          production = production(Oil := production Oil - oil_smallest_two c * 1.2);
          production = production(Oil := production Oil
            - of_int (3 * oil_refinery c) * specialization (oil_refinery c) * multipliers n MOil);
          production = production(Iron := production Iron
            - of_int (3 * steel_mill c) * specialization (steel_mill c) * multipliers n MSteel);
          production = production(Coal := production Coal
            - of_int (3 * steel_mill c) * specialization (steel_mill c) * multipliers n MSteel);
          production = production(Bauxite := production Bauxite
            - of_int (3 * aluminum_refinery c) * specialization (aluminum_refinery c)
              * multipliers n MAluminum);
          production = production(Lead := production Lead
            - of_int (6 * munitions_factory c) * specialization (munitions_factory c));
          production = production(Gasoline := production Gasoline
            + of_int (6 * oil_refinery c) * specialization (oil_refinery c) * multipliers n MOil);
          production = production(Steel := production Steel
            + of_int (9 * steel_mill c) * specialization (steel_mill c) * multipliers n MSteel);
          production = production(Aluminum := production Aluminum
            + of_int (9 * aluminum_refinery c) * specialization (aluminum_refinery c)
              * multipliers n MAluminum);
          production = production(Munitions := production Munitions
            + of_int (18 * munitions_factory c) * specialization (munitions_factory c)
              * multipliers n MMunitions);
          production = production(Uranium := production Uranium
            + of_int (uranium_mine c * 3) * specialization (uranium_mine c) * multipliers n MUranium);
          production = production(Oil := production Oil
            + of_int (oil_well c * 3) * specialization (oil_well c));
          production = production(Iron := production Iron
            + of_int (iron_mine c * 3) * specialization (iron_mine c));
          production = production(Coal := production Coal
            + of_int (coal_mine c * 3) * specialization (coal_mine c));
          production = production(Bauxite := production Bauxite
            + of_int (bauxite_mine c * 3) * specialization (bauxite_mine c));
          production = production(Lead := production Lead
            + of_int (lead_mine c * 3) * specialization (lead_mine c));
          income = income\<lparr>improvement_upkeep :=
            improvement_upkeep income + city_improvement_upkeep n c\<rparr>;
          income = income\<lparr>gross_income :=
            gross_income income + city_gross_income n truncated_date c\<rparr>
      in (production, income))"

definition initial_production :: production where
  "initial_production = (\<lambda>_. 0)"

definition initial_income :: income_acc where
  "initial_income = \<lparr>gross_income = 0, military_upkeep = 0, improvement_upkeep = 0\<rparr>"

definition city_loop :: "nation \<Rightarrow> game_info \<Rightarrow> int \<Rightarrow> production \<times> income_acc" where
  "city_loop n gi truncated_date =
     foldl (city_step n gi truncated_date) (initial_production, initial_income) (cities n)"


section \<open>The nation-level part of \<^verbatim>\<open>calculate_nation_revenue\<close>\<close>

subsection \<open>Military upkeep\<close>

definition in_peace :: "nation \<Rightarrow> bool" where
  "in_peace n = (offensive_wars_count n + defensive_wars_count n = 0)"

definition soldier_formula :: "nation \<Rightarrow> real" where
  "soldier_formula n =
     (if in_peace n then of_int (soldiers n) / 750 else of_int (soldiers n) / 500)"

definition military_step :: "nation \<Rightarrow> production \<times> income_acc \<Rightarrow> production \<times> income_acc" where
  "military_step n s =
     (let production = fst s; income = snd s;
          income =
            (if in_peace n then
               income\<lparr>military_upkeep := military_upkeep income
                 + (of_int (soldiers n) * 1.25) + of_int (tanks n * 50) + of_int (aircraft n * 500)
                 + of_int (ships n * 3375) + of_int (missiles n * 21000)
                 + of_int (nukes n * 35000)\<rparr>
             else
               income\<lparr>military_upkeep := military_upkeep income
                 + (of_int (soldiers n) * 1.88) + of_int (tanks n * 75) + of_int (aircraft n * 750)
                 + (of_int (ships n) * 5062.50) + of_int (missiles n * 31500)
                 + of_int (nukes n * 52500)\<rparr>);
          income = income\<lparr>military_upkeep := military_upkeep income + of_int (spies n * 2400)\<rparr>;
          production = production(Food := production Food - soldier_formula n)
      in (production, income))"

subsection \<open>Domestic policy\<close>

definition domestic_policy_increase :: "nation \<Rightarrow> real" where
  "domestic_policy_increase n =
     (if government_support_agency n then
        (if bureau_of_domestic_affairs n then 1 + 0.5 + 0.25 else 1 + 0.5)
      else 1)"

definition policy_step :: "nation \<Rightarrow> income_acc \<Rightarrow> income_acc" where
  "policy_step n income =
     (if domestic_policy n = ''OPEN_MARKETS'' then
        income\<lparr>gross_income := gross_income income * (1 + (0.01 * domestic_policy_increase n))\<rparr>
      else if domestic_policy n = ''IMPERIALISM'' then
        income\<lparr>military_upkeep :=
          military_upkeep income * (1 - (0.05 * domestic_policy_increase n))\<rparr>
      else income)"

subsection \<open>Color bonus\<close>

text \<open>
  \<^verbatim>\<open>alliance_color\<close> is \<^verbatim>\<open>None\<close> unless the alliance request answered with a color; a
  nation's color is a string, which never equals \<^verbatim>\<open>None\<close>.  The table is the dictionary of
  \<^verbatim>\<open>fetch_color_data\<close>, read with \<^verbatim>\<open>.get(key, 0)\<close>.
\<close>

definition dict_get :: "('k \<rightharpoonup> real) \<Rightarrow> 'k \<Rightarrow> real \<Rightarrow> real" where
  "dict_get d k dflt = (case d k of None \<Rightarrow> dflt | Some v \<Rightarrow> v)"

definition nation_color_bonus :: "nation \<Rightarrow> string option \<Rightarrow> (string \<rightharpoonup> real) \<Rightarrow> real" where
  "nation_color_bonus n alliance_color color_bonuses =
     (let color_bonus =
            (if Some (color n) = alliance_color then dict_get color_bonuses (color n) 0
             else if color n = ''beige'' then dict_get color_bonuses ''beige'' 0
             else 0)
      in color_bonus * 12)"

subsection \<open>Market prices\<close>

type_synonym prices = "resource \<rightharpoonup> real"

definition DEFAULT_PRICES :: prices where
  "DEFAULT_PRICES r =
     Some (case r of
        Food \<Rightarrow> 50 | Coal \<Rightarrow> 100 | Oil \<Rightarrow> 150 | Uranium \<Rightarrow> 400 | Lead \<Rightarrow> 100 | Iron \<Rightarrow> 100
      | Bauxite \<Rightarrow> 100 | Gasoline \<Rightarrow> 175 | Munitions \<Rightarrow> 250 | Steel \<Rightarrow> 200 | Aluminum \<Rightarrow> 150)"

text \<open>
  What \<^verbatim>\<open>get_pnw_market_prices\<close> reads from the outside: the cache file (absent,
  undecodable, or a dictionary whose \<^verbatim>\<open>timestamp\<close> and \<^verbatim>\<open>prices\<close> keys may be missing),
  the clock, whether an API key is configured, the answer to the price request (an
  exception raised inside the \<^verbatim>\<open>try\<close> block, or a status code with the first row of trade
  prices when the body has one; a resource that is missing or null in that row is
  \<open>None\<close>), and whether writing the cache file raises, which the same \<^verbatim>\<open>try\<close> block
  catches.  A cache file that exists can be opened, and one that decodes is a dictionary.
\<close>

datatype cache_file = NoCacheFile | CorruptedCache | CacheData "real option" "prices option"

datatype price_response = RequestRaised | Response nat "prices option"

record price_source =
  cache :: cache_file
  clock :: real
  api_key_set :: bool
  response :: price_response
  cache_write_raises :: bool

definition fetch_prices :: "price_source \<Rightarrow> prices" where
  "fetch_prices ps =
     (if \<not> api_key_set ps then DEFAULT_PRICES
      else case response ps of
        RequestRaised \<Rightarrow> DEFAULT_PRICES
      | Response status body \<Rightarrow>
          (if status \<noteq> 200 then DEFAULT_PRICES
           else case body of
             Some trade_data \<Rightarrow>
               (if cache_write_raises ps then DEFAULT_PRICES
                else (\<lambda>r. case trade_data r of Some v \<Rightarrow> Some v | None \<Rightarrow> DEFAULT_PRICES r))
           | None \<Rightarrow> DEFAULT_PRICES))"

definition get_pnw_market_prices :: "price_source \<Rightarrow> prices" where
  "get_pnw_market_prices ps =
     (case cache ps of
        CacheData ts pr \<Rightarrow>
          (if clock ps - (case ts of None \<Rightarrow> 0 | Some t \<Rightarrow> t) < 7200
           then (case pr of None \<Rightarrow> DEFAULT_PRICES | Some p \<Rightarrow> p)
           else fetch_prices ps)
      | _ \<Rightarrow> fetch_prices ps)"

subsection \<open>Monetary value and the report\<close>

record income_report = income_acc +
  color_bonus :: real
  gross_total :: real
  gross_upkeep :: real
  net_income :: real
  monetary_net_income :: real

record monetary =
  amount :: real
  monetary_value :: real

record revenue =
  rev_nation_name :: string
  rev_flag :: string
  rev_num_cities :: int
  rev_production :: production
  monetary_resources :: "resource \<Rightarrow> monetary"
  total_monetary_value :: real
  income :: income_report

text \<open>The loop \<^verbatim>\<open>for resource, amount in production.items()\<close>.\<close>

definition price_step ::
  "production \<Rightarrow> prices \<Rightarrow> real \<times> (resource \<Rightarrow> monetary) \<Rightarrow> resource
     \<Rightarrow> real \<times> (resource \<Rightarrow> monetary)"
where
  "price_step production market_prices s r =
     (let price = dict_get market_prices r 0;
          value = production r * price
      in (fst s + value, (snd s)(r := \<lparr>amount = production r, monetary_value = value\<rparr>)))"

definition price_loop :: "production \<Rightarrow> prices \<Rightarrow> real \<times> (resource \<Rightarrow> monetary)" where
  "price_loop production market_prices =
     foldl (price_step production market_prices)
       (0, (\<lambda>_. \<lparr>amount = 0, monetary_value = 0\<rparr>)) resources"

subsection \<open>The whole function\<close>

datatype error = NationNotFound | GameInfoUnavailable | AllianceNotFound

text \<open>
  A request to the game's API either raises (a network error, or a body that is not JSON:
  \<^verbatim>\<open>fetch_nation_data\<close>, \<^verbatim>\<open>fetch_game_info\<close>, \<^verbatim>\<open>fetch_color_data\<close>,
  \<^verbatim>\<open>fetch_alliance_data\<close> and the inline alliance request have no \<^verbatim>\<open>try\<close> around it) or
  answers with a status code and, when the JSON body holds the data asked for, that data.
  A call that raises returns nothing.
\<close>

datatype 'a http = NetworkError | Answer nat "'a option"

datatype 'a outcome = Raised | Returned 'a

record member =
  member_id :: int
  member_name :: string
  alliance_position :: string

record alliance_data =
  alliance_name :: string
  nations :: "member list"

text \<open>
  The outside world of one call: the answer to each request, the inputs of the price
  lookup, and today's date.
\<close>

record env =
  nation_request :: "int \<Rightarrow> nation http"
  alliance_request :: "int \<Rightarrow> alliance_data http"
  game_info_request :: "game_info http"
  color_request :: "(string \<times> real) list http"
  alliance_color_request :: "int \<Rightarrow> string http"
  price_inputs :: price_source
  today :: int

definition fetch_nation_data :: "env \<Rightarrow> int \<Rightarrow> nation option outcome" where
  "fetch_nation_data e nation_id =
     (case nation_request e nation_id of
        NetworkError \<Rightarrow> Raised
      | Answer status body \<Rightarrow> (if status = 200 then Returned body else Returned None))"

definition fetch_game_info :: "env \<Rightarrow> game_info option outcome" where
  "fetch_game_info e =
     (case game_info_request e of
        NetworkError \<Rightarrow> Raised
      | Answer status body \<Rightarrow> (if status = 200 then Returned body else Returned None))"

text \<open>
  The dictionary comprehension of \<^verbatim>\<open>fetch_color_data\<close> keeps the last entry of a color
  that is listed twice; a missing or empty list gives the empty dictionary.
\<close>

definition fetch_color_data :: "env \<Rightarrow> (string \<rightharpoonup> real) outcome" where
  "fetch_color_data e =
     (case color_request e of
        NetworkError \<Rightarrow> Raised
      | Answer status body \<Rightarrow>
          (if status = 200 then
             (case body of
                Some colors \<Rightarrow> Returned (map_of (rev colors))
              | None \<Rightarrow> Returned Map.empty)
           else Returned Map.empty))"

definition fetch_alliance_data :: "env \<Rightarrow> int \<Rightarrow> alliance_data option outcome" where
  "fetch_alliance_data e a_id =
     (case alliance_request e a_id of
        NetworkError \<Rightarrow> Raised
      | Answer status body \<Rightarrow> (if status = 200 then Returned body else Returned None))"

text \<open>
  The inline alliance request of \<^verbatim>\<open>calculate_nation_revenue\<close>, made only
  \<^verbatim>\<open>if nation.get("alliance_id")\<close>: an absent or zero id is false.  The color stays
  \<^verbatim>\<open>None\<close> unless the request answers 200 with a color.
\<close>

definition lookup_alliance_color :: "env \<Rightarrow> nation \<Rightarrow> string option outcome" where
  "lookup_alliance_color e n =
     (case alliance_id n of
        None \<Rightarrow> Returned None
      | Some i \<Rightarrow>
          (if i \<noteq> 0 then
             (case alliance_color_request e i of
                NetworkError \<Rightarrow> Raised
              | Answer status body \<Rightarrow> (if status = 200 then Returned body else Returned None))
           else Returned None))"

definition build_revenue ::
  "nation \<Rightarrow> game_info \<Rightarrow> (string \<rightharpoonup> real) \<Rightarrow> prices \<Rightarrow> string option \<Rightarrow> int \<Rightarrow> revenue"
where
  "build_revenue n gi color_bonuses market_prices alliance_color truncated_date =
     (let s = city_loop n gi truncated_date;
          s = military_step n s;
          production = fst s;
          income = policy_step n (snd s);
          color_bonus = nation_color_bonus n alliance_color color_bonuses;
          priced = price_loop production market_prices;
          total_monetary_value = fst priced;
          gross_income = color_bonus + gross_income income;
          gross_upkeep = improvement_upkeep income + military_upkeep income;
          net_income = gross_income - gross_upkeep;
          monetary_net_income = net_income + total_monetary_value
      in \<lparr>rev_nation_name = nation_name n,
          rev_flag = flag n,
          rev_num_cities = num_cities n,
          rev_production = production,
          monetary_resources = snd priced,
          total_monetary_value = total_monetary_value,
          income = \<lparr>gross_income = income_acc.gross_income income,
                     military_upkeep = military_upkeep income,
                     improvement_upkeep = improvement_upkeep income,
                     color_bonus = color_bonus,
                     gross_total = gross_income,
                     gross_upkeep = gross_upkeep,
                     net_income = net_income,
                     monetary_net_income = monetary_net_income\<rparr>\<rparr>)"

text \<open>
  The requests are made in the order of the source; one that raises ends the call, and a
  request after an error return is never made.
\<close>

definition calculate_nation_revenue :: "env \<Rightarrow> int \<Rightarrow> (error + revenue) outcome" where
  "calculate_nation_revenue e nation_id =
     (case fetch_nation_data e nation_id of
        Raised \<Rightarrow> Raised
      | Returned None \<Rightarrow> Returned (Inl NationNotFound)
      | Returned (Some n) \<Rightarrow>
          (case fetch_game_info e of
             Raised \<Rightarrow> Raised
           | Returned None \<Rightarrow> Returned (Inl GameInfoUnavailable)
           | Returned (Some gi) \<Rightarrow>
               (case fetch_color_data e of
                  Raised \<Rightarrow> Raised
                | Returned color_bonuses \<Rightarrow>
                    (let market_prices = get_pnw_market_prices (price_inputs e)
                     in case lookup_alliance_color e n of
                          Raised \<Rightarrow> Raised
                        | Returned alliance_color \<Rightarrow>
                            Returned (Inr (build_revenue n gi color_bonuses market_prices
                                             alliance_color (today e)))))))"

section \<open>\<^verbatim>\<open>calculate_alliance_revenue\<close>\<close>

text \<open>
  The call of \<^verbatim>\<open>calculate_nation_revenue\<close> inside the \<^verbatim>\<open>try\<close> block either raises,
  or returns a dictionary with the key \<^verbatim>\<open>error\<close>, or returns a report.  The loop is
  written over any such call, so that the \<^verbatim>\<open>except\<close> branch is a branch of the model.
\<close>

record member_result =
  res_id :: int
  res_name :: string
  res_cities :: int
  res_net_income :: real
  res_total_income :: real

record alliance_acc =
  alliance_production :: production
  alliance_income :: income_report
  alliance_total_monetary_value :: real
  alliance_monetary_resources :: "resource \<Rightarrow> monetary"
  total_cities :: int
  processed_nations :: nat
  failed_nations :: nat
  member_results :: "member_result list"

record alliance_report = alliance_acc +
  rep_alliance_name :: string
  member_count :: nat

definition initial_alliance_acc :: alliance_acc where
  "initial_alliance_acc =
     \<lparr>alliance_production = (\<lambda>_. 0),
      alliance_income = \<lparr>gross_income = 0, military_upkeep = 0, improvement_upkeep = 0,
                          color_bonus = 0, gross_total = 0, gross_upkeep = 0,
                          net_income = 0, monetary_net_income = 0\<rparr>,
      alliance_total_monetary_value = 0,
      alliance_monetary_resources = (\<lambda>_. \<lparr>amount = 0, monetary_value = 0\<rparr>),
      total_cities = 0,
      processed_nations = 0,
      failed_nations = 0,
      member_results = []\<rparr>"

text \<open>The inner loop \<^verbatim>\<open>for resource in alliance_production\<close>.\<close>

definition add_resource ::
  "revenue \<Rightarrow> production \<times> (resource \<Rightarrow> monetary) \<Rightarrow> resource
     \<Rightarrow> production \<times> (resource \<Rightarrow> monetary)"
where
  "add_resource nation_revenue s r =
     (let p = fst s; mr = snd s
      in (p(r := p r + rev_production nation_revenue r),
          mr(r := \<lparr>amount = amount (mr r) + amount (monetary_resources nation_revenue r),
                   monetary_value = monetary_value (mr r)
                     + monetary_value (monetary_resources nation_revenue r)\<rparr>)))"

definition add_income :: "income_report \<Rightarrow> income_report \<Rightarrow> income_report" where
  "add_income a i =
     \<lparr>gross_income = gross_income a + gross_income i,
      military_upkeep = military_upkeep a + military_upkeep i,
      improvement_upkeep = improvement_upkeep a + improvement_upkeep i,
      color_bonus = color_bonus a + color_bonus i,
      gross_total = gross_total a + gross_total i,
      gross_upkeep = gross_upkeep a + gross_upkeep i,
      net_income = net_income a + net_income i,
      monetary_net_income = monetary_net_income a + monetary_net_income i\<rparr>"

definition alliance_step ::
  "(int \<Rightarrow> (error + revenue) outcome) \<Rightarrow> alliance_acc \<Rightarrow> member \<Rightarrow> alliance_acc"
where
  "alliance_step calc acc m =
     (case calc (member_id m) of
        Raised \<Rightarrow> acc\<lparr>failed_nations := failed_nations acc + 1\<rparr>
      | Returned (Inl err) \<Rightarrow> acc\<lparr>failed_nations := failed_nations acc + 1\<rparr>
      | Returned (Inr nation_revenue) \<Rightarrow>
          (let added = foldl (add_resource nation_revenue)
                         (alliance_production acc, alliance_monetary_resources acc) resources
           in acc\<lparr>alliance_production := fst added,
                  alliance_monetary_resources := snd added,
                  alliance_total_monetary_value :=
                    alliance_total_monetary_value acc + total_monetary_value nation_revenue,
                  alliance_income := add_income (alliance_income acc) (income nation_revenue),
                  total_cities := total_cities acc + rev_num_cities nation_revenue,
                  processed_nations := processed_nations acc + 1,
                  member_results := member_results acc @
                    [\<lparr>res_id = member_id m,
                      res_name = rev_nation_name nation_revenue,
                      res_cities = rev_num_cities nation_revenue,
                      res_net_income = net_income (income nation_revenue),
                      res_total_income = monetary_net_income (income nation_revenue)\<rparr>]\<rparr>))"

definition member_nations :: "alliance_data \<Rightarrow> member list" where
  "member_nations ad = filter (\<lambda>nation. alliance_position nation \<noteq> ''APPLICANT'') (nations ad)"

text \<open>\<^verbatim>\<open>list.sort(key=..., reverse=True)\<close> is stable: it sorts the reversed list and reverses.\<close>

definition sort_descending :: "member_result list \<Rightarrow> member_result list" where
  "sort_descending xs = rev (sort_key res_total_income (rev xs))"

definition alliance_revenue_of ::
  "(int \<Rightarrow> (error + revenue) outcome) \<Rightarrow> alliance_data \<Rightarrow> alliance_report"
where
  "alliance_revenue_of calc ad =
     (let member_nations = member_nations ad;
          acc = foldl (alliance_step calc) initial_alliance_acc member_nations
      in \<lparr>alliance_production = alliance_production acc,
          alliance_income = alliance_income acc,
          alliance_total_monetary_value = alliance_total_monetary_value acc,
          alliance_monetary_resources = alliance_monetary_resources acc,
          total_cities = total_cities acc,
          processed_nations = processed_nations acc,
          failed_nations = failed_nations acc,
          member_results = sort_descending (member_results acc),
          rep_alliance_name = alliance_name ad,
          member_count = length member_nations\<rparr>)"

definition calculate_alliance_revenue :: "env \<Rightarrow> int \<Rightarrow> (error + alliance_report) outcome" where
  "calculate_alliance_revenue e a_id =
     (case fetch_alliance_data e a_id of
        Raised \<Rightarrow> Raised
      | Returned None \<Rightarrow> Returned (Inl AllianceNotFound)
      | Returned (Some ad) \<Rightarrow>
          (case fetch_game_info e of
             Raised \<Rightarrow> Raised
           | Returned game_info \<Rightarrow>
               (case fetch_color_data e of
                  Raised \<Rightarrow> Raised
                | Returned color_bonuses \<Rightarrow>
                    (let market_prices = get_pnw_market_prices (price_inputs e)
                     in case game_info of
                          None \<Rightarrow> Returned (Inl GameInfoUnavailable)
                        | Some gi \<Rightarrow>
                            Returned (Inr (alliance_revenue_of (calculate_nation_revenue e) ad))))))"

text \<open>The reports of the members whose call returned one, in the order of the list.\<close>

fun successes :: "(int \<Rightarrow> (error + revenue) outcome) \<Rightarrow> member list \<Rightarrow> revenue list" where
  "successes calc [] = []"
| "successes calc (m # ms) =
     (case calc (member_id m) of
        Returned (Inr nation_revenue) \<Rightarrow> nation_revenue # successes calc ms
      | _ \<Rightarrow> successes calc ms)"

definition failed :: "(int \<Rightarrow> (error + revenue) outcome) \<Rightarrow> member \<Rightarrow> bool" where
  "failed calc m = (case calc (member_id m) of Returned (Inr nation_revenue) \<Rightarrow> False | _ \<Rightarrow> True)"


section \<open>Food production as the specification composes it\<close>

text \<open>
  Step 4 of the specification, written from its words and in exact arithmetic: the product
  of the farm count, the specialization bonus and the land rate, rounded to two decimals
  first, then the seasonal modifier and the radiation penalty, the clamp at zero, and the
  factor 12.  Rounding to two decimals takes the nearest hundredth and, of two equally
  near, the even one.  Winter is December to February and summer June to August on the
  Northern hemisphere; the Southern hemisphere (South America, Asia, Africa) has them
  exchanged.
\<close>

definition round_2dp :: "real \<Rightarrow> real" where
  "round_2dp x =
     (let k = \<lfloor>x * 100 + 1 / 2\<rfloor>
      in if of_int k = x * 100 + 1 / 2 \<and> odd k then of_int (k - 1) / 100 else of_int k / 100)"

definition spec_rate :: "nation \<Rightarrow> city \<Rightarrow> real" where
  "spec_rate n c =
     (if mass_irrigation n then land c / 400 else land c / 500)
     * (if continent n = ''an'' then 1 / 2 else 1)"

definition spec_product :: "nation \<Rightarrow> city \<Rightarrow> real" where
  "spec_product n c =
     of_int (farm c) * (1 + 0.5 * (of_int (farm c) - 1) / 19) * spec_rate n c"

definition spec_base_production :: "nation \<Rightarrow> city \<Rightarrow> real" where
  "spec_base_production n c = round_2dp (spec_product n c)"

definition spec_southern :: "nation \<Rightarrow> bool" where
  "spec_southern n = (continent n = ''sa'' \<or> continent n = ''as'' \<or> continent n = ''af'')"

definition spec_seasonal :: "nation \<Rightarrow> game_info \<Rightarrow> real" where
  "spec_seasonal n gi =
     (if continent n = ''an'' then 1
      else if game_date_month gi = 12 \<or> game_date_month gi = 1 \<or> game_date_month gi = 2
        then (if spec_southern n then 1.2 else 0.8)
      else if game_date_month gi = 6 \<or> game_date_month gi = 7 \<or> game_date_month gi = 8
        then (if spec_southern n then 0.8 else 1.2)
      else 1.0)"

text \<open>The radiation of the nation's continent; a code that names no continent has none.\<close>

definition spec_continent_radiation :: "nation \<Rightarrow> game_info \<Rightarrow> real" where
  "spec_continent_radiation n gi =
     (case map_of
        [(''af'', africa (radiation gi)), (''an'', antarctica (radiation gi)),
         (''as'', asia (radiation gi)), (''au'', australia (radiation gi)),
         (''eu'', europe (radiation gi)), (''na'', north_america (radiation gi)),
         (''sa'', south_america (radiation gi))] (continent n) of
        Some r \<Rightarrow> r
      | None \<Rightarrow> 0)"

definition spec_radiation_penalty :: "nation \<Rightarrow> game_info \<Rightarrow> real" where
  "spec_radiation_penalty n gi =
     - (spec_continent_radiation n gi + rad_global (radiation gi)) / 1000
       * (if fallout_shelter n then 0.85 else 1)"

definition spec_daily_food :: "nation \<Rightarrow> game_info \<Rightarrow> city \<Rightarrow> real" where
  "spec_daily_food n gi c =
     max (spec_base_production n c * spec_seasonal n gi * (1 + spec_radiation_penalty n gi)) 0 * 12"

section \<open>Concrete inputs\<close>

text \<open>An empty city, a nation without projects, units or wars, and a game without radiation.\<close>

definition empty_city :: city where
  "empty_city =
     \<lparr>date = 0, infrastructure = 0, land = 0,
      oil_refinery = 0, steel_mill = 0, aluminum_refinery = 0, munitions_factory = 0,
      uranium_mine = 0, oil_well = 0, iron_mine = 0, coal_mine = 0, bauxite_mine = 0,
      lead_mine = 0, farm = 0,
      subway = 0, stadium = 0, shopping_mall = 0, bank = 0, supermarket = 0,
      police_station = 0, hospital = 0, recycling_center = 0,
      nuclear_power = 0, coal_power = 0, oil_power = 0, wind_power = 0\<rparr>"

definition plain_nation :: nation where
  "plain_nation =
     \<lparr>nation_name = ''Plain'', flag = ''flag.png'', num_cities = 0, alliance_id = None,
      color = ''gray'', continent = ''eu'', domestic_policy = ''MANIFEST_DESTINY'',
      soldiers = 0, tanks = 0, aircraft = 0, ships = 0, spies = 0, missiles = 0, nukes = 0,
      offensive_wars_count = 0, defensive_wars_count = 0,
      bauxite_works = False, emergency_gasoline_reserve = False, iron_works = False,
      uranium_enrichment_program = False, specialized_police_training_program = False,
      international_trade_center = False, telecommunications_satellite = False,
      clinical_research_center = False, green_technologies = False, arms_stockpile = False,
      government_support_agency = False, mass_irrigation = False, fallout_shelter = False,
      bureau_of_domestic_affairs = False, recycling_initiative = False,
      cities = []\<rparr>"

definition calm_game :: "nat \<Rightarrow> game_info" where
  "calm_game month =
     \<lparr>game_date_month = month,
      radiation = \<lparr>rad_global = 0, north_america = 0, south_america = 0, europe = 0,
                   africa = 0, asia = 0, australia = 0, antarctica = 0\<rparr>\<rparr>"

text \<open>The city of the round-trip scenario: infrastructure 1000, land 2000, ten farms.\<close>

definition farm_city :: city where
  "farm_city = empty_city\<lparr>infrastructure := 1000, land := 2000, farm := 10\<rparr>"


text \<open>Cities and nations used as concrete inputs below.\<close>

definition safe_city :: city where
  "safe_city =
     empty_city\<lparr>infrastructure := 1000, land := 2000, police_station := 1, hospital := 1\<rparr>"

definition crowded_city :: city where
  "crowded_city = empty_city\<lparr>infrastructure := 1000, land := 10\<rparr>"

definition fractional_city :: city where
  "fractional_city =
     empty_city\<lparr>infrastructure := 1000.5, nuclear_power := 1, coal_power := 3, oil_power := 3\<rparr>"

definition munitions_city :: city where
  "munitions_city = empty_city\<lparr>munitions_factory := 1\<rparr>"

definition stockpile_nation :: nation where
  "stockpile_nation = plain_nation\<lparr>arms_stockpile := True\<rparr>"

definition spy_nation :: nation where
  "spy_nation = plain_nation\<lparr>spies := 1\<rparr>"

definition tank_nation :: nation where
  "tank_nation = plain_nation\<lparr>tanks := 10, spies := 2\<rparr>"

definition open_markets_nation :: nation where
  "open_markets_nation =
     plain_nation\<lparr>domestic_policy := ''OPEN_MARKETS'', government_support_agency := True,
       bureau_of_domestic_affairs := True\<rparr>"

definition green_nation :: nation where
  "green_nation =
     plain_nation\<lparr>domestic_policy := ''OPEN_MARKETS'', color := ''green'', alliance_id := Some 7,
       cities := [safe_city]\<rparr>"

definition green_table :: "string \<rightharpoonup> real" where
  "green_table = [''green'' \<mapsto> 3]"

text \<open>The same nation with other war counts: nothing else differs.\<close>

definition at_war :: "nation \<Rightarrow> int \<Rightarrow> int \<Rightarrow> nation" where
  "at_war n ow dw = n\<lparr>offensive_wars_count := ow, defensive_wars_count := dw\<rparr>"

text \<open>
  An alliance of three members and one applicant; the call for the second member returns
  an error and the other two return reports.
\<close>

definition flat_revenue :: "string \<Rightarrow> int \<Rightarrow> real \<Rightarrow> revenue" where
  "flat_revenue name k x =
     \<lparr>rev_nation_name = name, rev_flag = ''flag.png'', rev_num_cities = k,
      rev_production = (\<lambda>_. x),
      monetary_resources = (\<lambda>_. \<lparr>amount = x, monetary_value = 2 * x\<rparr>),
      total_monetary_value = 22 * x,
      income = \<lparr>gross_income = 10 * x, military_upkeep = 3 * x, improvement_upkeep = 2 * x,
                 color_bonus = x, gross_total = 11 * x, gross_upkeep = 5 * x,
                 net_income = 6 * x, monetary_net_income = 28 * x\<rparr>\<rparr>"

definition sample_calc :: "int \<Rightarrow> (error + revenue) outcome" where
  "sample_calc i =
     (if i = 1 then Returned (Inr (flat_revenue ''One'' 4 100))
      else if i = 2 then Returned (Inl NationNotFound)
      else if i = 3 then Returned (Inr (flat_revenue ''Three'' 6 50))
      else Raised)"

definition sample_alliance :: alliance_data where
  "sample_alliance =
     \<lparr>alliance_name = ''Sample'',
      nations =
        [\<lparr>member_id = 1, member_name = ''One'', alliance_position = ''LEADER''\<rparr>,
         \<lparr>member_id = 2, member_name = ''Two'', alliance_position = ''MEMBER''\<rparr>,
         \<lparr>member_id = 3, member_name = ''Three'', alliance_position = ''MEMBER''\<rparr>,
         \<lparr>member_id = 4, member_name = ''Four'', alliance_position = ''APPLICANT''\<rparr>]\<rparr>"

text \<open>
  Two cities with one farm whose exact product is a tie between two hundredths, in a nation
  with mass irrigation: land 218 gives 0.545 and land 10 gives 0.025.
\<close>

definition irrigated_nation :: nation where
  "irrigated_nation = plain_nation\<lparr>mass_irrigation := True\<rparr>"

definition tie_city :: city where
  "tie_city = empty_city\<lparr>land := 218, farm := 1\<rparr>"

definition low_tie_city :: city where
  "low_tie_city = empty_city\<lparr>land := 10, farm := 1\<rparr>"




section \<open>Properties\<close>

subsection \<open>Nearest integer\<close>

lemma py_round_near: "\<bar>of_int (py_round x) - x\<bar> \<le> 1 / 2"
  unfolding py_round_def Let_def by (auto; linarith)

subsection \<open>Population\<close>

lemma ln_age_nonneg: "0 \<le> ln_age td c"
  by (simp add: ln_age_def age_days_def)

text \<open>
  Claim C3, as amended.  The two \<open>max\<close> clamps make each deduction non-negative, not the
  population: the final population is non-negative exactly when the disease deduction
  and the crime deduction together do not exceed the base population.
\<close>

theorem population_sign:
  "0 \<le> max ((disease_rate n c * 100 * infrastructure c) / 100) 0
   \<and> 0 \<le> max ((crime_rate n c / 10) * (100 * infrastructure c) - 25) 0
   \<and> (0 \<le> population n td c
        \<longleftrightarrow> max ((disease_rate n c * 100 * infrastructure c) / 100) 0
             + max ((crime_rate n c / 10) * (100 * infrastructure c) - 25) 0
             \<le> base_population c)"
proof -
  define d1 where "d1 = max ((disease_rate n c * 100 * infrastructure c) / 100) 0"
  define d2 where "d2 = max ((crime_rate n c / 10) * (100 * infrastructure c) - 25) 0"
  define f where "f = 1 + ln_age td c / 15"
  have pos: "0 < f"
    using ln_age_nonneg [of td c] by (simp add: f_def)
  have p: "population n td c = (base_population c - d1 - d2) * f"
    by (simp add: population_def Let_def d1_def d2_def f_def)
  have "0 \<le> population n td c \<longleftrightarrow> 0 \<le> base_population c - d1 - d2"
    unfolding p using pos by (simp add: zero_le_mult_iff)
  also have "\<dots> \<longleftrightarrow> d1 + d2 \<le> base_population c"
    by linarith
  finally have "0 \<le> population n td c \<longleftrightarrow> d1 + d2 \<le> base_population c" .
  moreover have "0 \<le> d1" "0 \<le> d2"
    by (simp_all add: d1_def d2_def)
  ultimately show ?thesis
    unfolding d1_def d2_def by blast
qed

theorem population_sign_witness:
  "0 \<le> population plain_nation 0 farm_city"
  using population_sign [of plain_nation farm_city 0]
  by (simp add: farm_city_def empty_city_def plain_nation_def Let_def
      commerce_def commerce_addition_def commerce_cap_def base_population_def disease_rate_def
      crime_rate_def population_density_def pollution_modifier_def pollution_index_def
      hospital_modifier_def police_modifier_def
      farm_greentech_multiplier_def manu_greentech_multiplier_def subway_greentech_addition_def)

text \<open>
  A city with infrastructure 1000 on land 10, in a nation without projects, founded
  today: its population density is 10000 and the disease deduction alone is a hundred
  times the base population.
\<close>

theorem population_negative_counterexample:
  "0 \<le> infrastructure crowded_city \<and> 0 \<le> commerce plain_nation crowded_city
   \<and> population plain_nation 0 crowded_city < 0"
  by (simp add: crowded_city_def empty_city_def plain_nation_def population_def Let_def
      commerce_def commerce_addition_def commerce_cap_def base_population_def disease_rate_def
      crime_rate_def population_density_def pollution_modifier_def pollution_index_def
      hospital_modifier_def police_modifier_def ln_age_def age_days_def
      farm_greentech_multiplier_def manu_greentech_multiplier_def subway_greentech_addition_def)

subsection \<open>Power plants\<close>

text \<open>
  For an integer infrastructure the additions of 999 and 99 before the floor division
  give the ceiling of the quotient.
\<close>

lemma floor_shift_ceiling:
  fixes k m :: int
  assumes "0 < m"
  shows "\<lfloor>(of_int k + of_int (m - 1) :: real) / of_int m\<rfloor> = \<lceil>(of_int k :: real) / of_int m\<rceil>"
proof (rule floor_unique)
  define q where "q = \<lceil>(of_int k :: real) / of_int m\<rceil>"
  have m: "(0 :: real) < of_int m" using assms by simp
  have up: "(of_int k :: real) / of_int m \<le> of_int q"
    unfolding q_def by (rule le_of_int_ceiling)
  have lo: "of_int q - 1 < (of_int k :: real) / of_int m"
    unfolding q_def by linarith
  from up m have "(of_int k :: real) \<le> of_int q * of_int m"
    by (simp add: pos_divide_le_eq)
  then have ki: "k \<le> q * m"
    by (metis of_int_le_iff of_int_mult)
  from lo m have "(of_int q - 1) * of_int m < (of_int k :: real)"
    by (simp add: pos_less_divide_eq)
  then have "(of_int ((q - 1) * m) :: real) < of_int k"
    by simp
  then have "(q - 1) * m < k"
    by (simp only: of_int_less_iff)
  then have kl: "(q - 1) * m + 1 \<le> k"
    by simp
  have "of_int q * of_int m \<le> (of_int k + of_int (m - 1) :: real)"
  proof -
    have "q * m \<le> k + (m - 1)" using kl by (simp add: algebra_simps)
    then have "(of_int (q * m) :: real) \<le> of_int (k + (m - 1))"
      by (simp only: of_int_le_iff)
    then show ?thesis by simp
  qed
  then show "of_int q \<le> (of_int k + of_int (m - 1) :: real) / of_int m"
    using m by (simp add: pos_le_divide_eq)
  have "(of_int k + of_int (m - 1) :: real) < (of_int q + 1) * of_int m"
  proof -
    have "k + (m - 1) < (q + 1) * m" using ki by (simp add: algebra_simps)
    then have "(of_int (k + (m - 1)) :: real) < of_int ((q + 1) * m)"
      by (simp only: of_int_less_iff)
    then show ?thesis by simp
  qed
  then show "(of_int k + of_int (m - 1) :: real) / of_int m < of_int q + 1"
    using m by (simp add: pos_divide_less_eq)
qed

lemma ceil_trick_1000: "floordiv (of_int k + 999) 1000 = of_int \<lceil>(of_int k :: real) / 1000\<rceil>"
  using floor_shift_ceiling [of 1000 k] by (simp add: floordiv_def)

lemma ceil_trick_100: "floordiv (of_int k + 99) 100 = of_int \<lceil>(of_int k :: real) / 100\<rceil>"
  using floor_shift_ceiling [of 100 k] by (simp add: floordiv_def)

lemma city_step_uranium:
  "fst (city_step n gi td (p, i) c) Uranium
     = p Uranium - nuclear_smallest_two c * 2.4
       + of_int (uranium_mine c * 3) * specialization (uranium_mine c) * multipliers n MUranium"
  by (simp add: city_step_def Let_def)

text \<open>
  Claim C4 at a fractional infrastructure.  With infrastructure 1000.5, one nuclear plant
  and three coal and oil plants, the loop takes 2.4 uranium, 12 coal and 12 oil; with the
  ceilings of 1000.5 / 1000 and 1000.5 / 100, which are 2 and 11, the formulas of the
  claim give 4.8, 13.2 and 13.2.  The floor division of the source is the ceiling only
  on integers.
\<close>

theorem fractional_infrastructure_fuel:
  "fst (city_step plain_nation (calm_game 1) 0 (initial_production, initial_income) fractional_city)
       Uranium = - 2.4
   \<and> min (of_int \<lceil>infrastructure fractional_city / 1000\<rceil>)
         (of_int (nuclear_power fractional_city * 2)) * 2.4 = (4.8 :: real)
   \<and> fst (city_step plain_nation (calm_game 1) 0 (initial_production, initial_income) fractional_city)
       Coal = - 12
   \<and> min (of_int \<lceil>infrastructure fractional_city / 100\<rceil>)
         (of_int (coal_power fractional_city * 5)) * 1.2 = (13.2 :: real)
   \<and> fst (city_step plain_nation (calm_game 1) 0 (initial_production, initial_income) fractional_city)
       Oil = - 12
   \<and> min (of_int \<lceil>infrastructure fractional_city / 100\<rceil>)
         (of_int (oil_power fractional_city * 5)) * 1.2 = (13.2 :: real)"
  by (simp add: city_step_def Let_def fractional_city_def empty_city_def plain_nation_def
      initial_production_def nuclear_smallest_two_def coal_smallest_two_def oil_smallest_two_def
      floordiv_def specialization_def multipliers_def)

subsection \<open>Factories\<close>

lemma city_step_lead:
  "fst (city_step n gi td (p, i) c) Lead
     = p Lead
       - of_int (6 * munitions_factory c) * (1 + (0.5 * (of_int (munitions_factory c) - 1)) / 4)
       + of_int (lead_mine c * 3) * (1 + (0.5 * (of_int (lead_mine c) - 1)) / 4)"
  by (simp add: city_step_def Let_def specialization_def)

lemma city_step_factory_outputs:
  "fst (city_step n gi td (p, i) c) Gasoline
     = p Gasoline + of_int (6 * oil_refinery c)
         * (1 + (0.5 * (of_int (oil_refinery c) - 1)) / 4) * multipliers n MOil"
  "fst (city_step n gi td (p, i) c) Steel
     = p Steel + of_int (9 * steel_mill c)
         * (1 + (0.5 * (of_int (steel_mill c) - 1)) / 4) * multipliers n MSteel"
  "fst (city_step n gi td (p, i) c) Aluminum
     = p Aluminum + of_int (9 * aluminum_refinery c)
         * (1 + (0.5 * (of_int (aluminum_refinery c) - 1)) / 4) * multipliers n MAluminum"
  "fst (city_step n gi td (p, i) c) Munitions
     = p Munitions + of_int (18 * munitions_factory c)
         * (1 + (0.5 * (of_int (munitions_factory c) - 1)) / 4) * multipliers n MMunitions"
  by (simp_all add: city_step_def Let_def specialization_def)

lemma city_step_factory_inputs:
  "fst (city_step n gi td (p, i) c) Iron
     = p Iron - of_int (3 * steel_mill c)
         * (1 + (0.5 * (of_int (steel_mill c) - 1)) / 4) * multipliers n MSteel
       + of_int (iron_mine c * 3) * (1 + (0.5 * (of_int (iron_mine c) - 1)) / 4)"
  "fst (city_step n gi td (p, i) c) Bauxite
     = p Bauxite - of_int (3 * aluminum_refinery c)
         * (1 + (0.5 * (of_int (aluminum_refinery c) - 1)) / 4) * multipliers n MAluminum
       + of_int (bauxite_mine c * 3) * (1 + (0.5 * (of_int (bauxite_mine c) - 1)) / 4)"
  "fst (city_step n gi td (p, i) c) Coal
     = p Coal - coal_smallest_two c * 1.2
       - of_int (3 * steel_mill c)
         * (1 + (0.5 * (of_int (steel_mill c) - 1)) / 4) * multipliers n MSteel
       + of_int (coal_mine c * 3) * (1 + (0.5 * (of_int (coal_mine c) - 1)) / 4)"
  "fst (city_step n gi td (p, i) c) Oil
     = p Oil - oil_smallest_two c * 1.2
       - of_int (3 * oil_refinery c)
         * (1 + (0.5 * (of_int (oil_refinery c) - 1)) / 4) * multipliers n MOil
       + of_int (oil_well c * 3) * (1 + (0.5 * (of_int (oil_well c) - 1)) / 4)"
  by (simp_all add: city_step_def Let_def specialization_def)

text \<open>
  Claim C2 at a city with one munitions factory in a nation with the arms stockpile.  The
  munitions multiplier is 1.2 and scales the production, 18 * 1.2 = 21.6, but the lead
  consumption stays 6 where the claim has 6 * 1.2 = 7.2: the lead line of the source has
  no multiplier, unlike the oil, iron, coal and bauxite lines beside it.
\<close>

theorem lead_consumption_unscaled:
  "multipliers stockpile_nation MMunitions = 1.2
   \<and> fst (city_step stockpile_nation (calm_game 1) 0 (initial_production, initial_income)
            munitions_city) Lead = - 6
   \<and> fst (city_step stockpile_nation (calm_game 1) 0 (initial_production, initial_income)
            munitions_city) Munitions = 21.6"
  by (simp add: city_step_def Let_def munitions_city_def empty_city_def stockpile_nation_def
      plain_nation_def initial_production_def specialization_def multipliers_def)

subsection \<open>Income of the report\<close>

lemma city_step_gross_income:
  "gross_income (snd (city_step n gi td s c)) = gross_income (snd s) + city_gross_income n td c"
  by (simp add: city_step_def Let_def)

lemma city_fold_gross_income:
  "gross_income (snd (foldl (city_step n gi td) s cs))
     = gross_income (snd s) + sum_list (map (city_gross_income n td) cs)"
  by (induction cs arbitrary: s) (simp_all add: city_step_gross_income)

lemma city_loop_gross_income:
  "gross_income (snd (city_loop n gi td)) = sum_list (map (city_gross_income n td) (cities n))"
  by (simp add: city_loop_def city_fold_gross_income initial_income_def)

lemma military_step_gross_income:
  "gross_income (snd (military_step n s)) = gross_income (snd s)"
  by (simp add: military_step_def Let_def)

lemma military_step_improvement_upkeep:
  "improvement_upkeep (snd (military_step n s)) = improvement_upkeep (snd s)"
  by (simp add: military_step_def Let_def)

lemma build_revenue_income:
  "gross_income (income (build_revenue n gi cb mp ac td))
     = gross_income (policy_step n (snd (military_step n (city_loop n gi td))))"
  "military_upkeep (income (build_revenue n gi cb mp ac td))
     = military_upkeep (policy_step n (snd (military_step n (city_loop n gi td))))"
  "color_bonus (income (build_revenue n gi cb mp ac td)) = nation_color_bonus n ac cb"
  "gross_total (income (build_revenue n gi cb mp ac td))
     = nation_color_bonus n ac cb
       + gross_income (policy_step n (snd (military_step n (city_loop n gi td))))"
  by (simp_all add: build_revenue_def Let_def)

lemma safe_city_income: "city_gross_income green_nation 0 safe_city = 72500"
  by (simp add: city_gross_income_def population_def Let_def safe_city_def
      green_nation_def empty_city_def plain_nation_def
      commerce_def commerce_addition_def commerce_cap_def base_population_def disease_rate_def
      crime_rate_def population_density_def pollution_modifier_def pollution_index_def
      hospital_modifier_def police_modifier_def ln_age_def age_days_def
      police_modifier_modifier_def hospital_modifier_modifier_def
      farm_greentech_multiplier_def manu_greentech_multiplier_def subway_greentech_addition_def)

text \<open>
  Claim C7.  The domestic-policy increase is 1, plus 0.5 with the government support
  agency, plus 0.25 more only when the bureau of domestic affairs is active as well.  The
  reported gross income is the summed city income times \<open>1 + 0.01 * increase\<close> under
  OPEN_MARKETS and unchanged otherwise; the reported military upkeep is the upkeep of the
  units times \<open>1 - 0.05 * increase\<close> under IMPERIALISM and unchanged otherwise.  With
  OPEN_MARKETS and both projects the increase is 1.75 and the factor 1.0175; any other
  policy changes nothing.
\<close>

theorem domestic_policy_adjustment:
  "domestic_policy_increase n
     = 1 + (if government_support_agency n
            then 0.5 + (if bureau_of_domestic_affairs n then 0.25 else 0) else 0)
   \<and> gross_income (income (build_revenue n gi cb mp ac td))
       = gross_income (snd (military_step n (city_loop n gi td)))
         * (if domestic_policy n = ''OPEN_MARKETS''
            then 1 + 0.01 * domestic_policy_increase n else 1)
   \<and> military_upkeep (income (build_revenue n gi cb mp ac td))
       = military_upkeep (snd (military_step n (city_loop n gi td)))
         * (if domestic_policy n = ''IMPERIALISM''
            then 1 - 0.05 * domestic_policy_increase n else 1)
   \<and> (domestic_policy n = ''OPEN_MARKETS'' \<and> government_support_agency n
        \<and> bureau_of_domestic_affairs n
      \<longrightarrow> domestic_policy_increase n = 1.75
          \<and> gross_income (policy_step n inc) = gross_income inc * 1.0175)
   \<and> (domestic_policy n \<noteq> ''OPEN_MARKETS'' \<and> domestic_policy n \<noteq> ''IMPERIALISM''
      \<longrightarrow> policy_step n inc = inc)"
  by (simp add: build_revenue_income policy_step_def domestic_policy_increase_def)

theorem domestic_policy_adjustment_witness:
  "domestic_policy_increase open_markets_nation = 1.75
   \<and> gross_income (policy_step open_markets_nation
        \<lparr>gross_income = 10000, military_upkeep = 500, improvement_upkeep = 0\<rparr>) = 10175
   \<and> policy_step plain_nation \<lparr>gross_income = 10000, military_upkeep = 500, improvement_upkeep = 0\<rparr>
       = \<lparr>gross_income = 10000, military_upkeep = 500, improvement_upkeep = 0\<rparr>"
  using domestic_policy_adjustment [of open_markets_nation _ _ _ _ _
      "\<lparr>gross_income = 10000, military_upkeep = 500, improvement_upkeep = 0\<rparr>"]
    domestic_policy_adjustment [of plain_nation _ _ _ _ _
      "\<lparr>gross_income = 10000, military_upkeep = 500, improvement_upkeep = 0\<rparr>"]
  by (simp add: open_markets_nation_def plain_nation_def)

text \<open>
  Claim C8.  The color bonus of the report is 12 times the table's entry for the
  nation's color when that color is the alliance's color, 12 times the entry for beige
  when the nation is beige, and 0 otherwise; an entry absent from the table counts as 0,
  so a color missing from the table and an empty table give 0.
\<close>

theorem color_bonus_rule:
  "color_bonus (income (build_revenue n gi cb mp ac td)) = nation_color_bonus n ac cb
   \<and> (ac = Some (color n) \<longrightarrow> nation_color_bonus n ac cb = 12 * dict_get cb (color n) 0)
   \<and> (ac \<noteq> Some (color n) \<and> color n = ''beige''
        \<longrightarrow> nation_color_bonus n ac cb = 12 * dict_get cb ''beige'' 0)
   \<and> (ac \<noteq> Some (color n) \<and> color n \<noteq> ''beige'' \<longrightarrow> nation_color_bonus n ac cb = 0)
   \<and> (cb (color n) = None \<longrightarrow> nation_color_bonus n ac cb = 0)
   \<and> nation_color_bonus n ac Map.empty = 0"
  by (auto simp add: build_revenue_income nation_color_bonus_def dict_get_def Let_def)

theorem color_bonus_rule_witness:
  "nation_color_bonus green_nation (Some ''green'') green_table = 36
   \<and> nation_color_bonus green_nation (Some ''blue'') green_table = 0
   \<and> nation_color_bonus green_nation None green_table = 0"
  using color_bonus_rule [of green_nation _ green_table _ "Some ''green''"]
    color_bonus_rule [of green_nation _ green_table _ "Some ''blue''"]
    color_bonus_rule [of green_nation _ green_table _ None]
  by (simp add: green_nation_def plain_nation_def green_table_def dict_get_def)

text \<open>
  Claim C10.  Under OPEN_MARKETS the reported gross total is the color bonus plus the
  multiplier times the sum of the city incomes: the color bonus is added after the
  multiplication and is not scaled.
\<close>

theorem open_markets_gross_total:
  "domestic_policy n = ''OPEN_MARKETS''
   \<Longrightarrow> gross_total (income (build_revenue n gi cb mp ac td))
       = nation_color_bonus n ac cb
         + (1 + 0.01 * domestic_policy_increase n)
           * sum_list (map (city_gross_income n td) (cities n))"
  by (simp add: build_revenue_income policy_step_def military_step_gross_income
      city_loop_gross_income)

theorem open_markets_gross_total_witness:
  "gross_total (income (build_revenue green_nation (calm_game 1) green_table DEFAULT_PRICES
      (Some ''green'') 0)) = 73261"
proof -
  have p: "domestic_policy green_nation = ''OPEN_MARKETS''"
    by (simp add: green_nation_def)
  have c: "cities green_nation = [safe_city]"
    by (simp add: green_nation_def)
  have b: "nation_color_bonus green_nation (Some ''green'') green_table = 36"
    by (simp add: nation_color_bonus_def green_nation_def plain_nation_def green_table_def
        dict_get_def)
  have d: "domestic_policy_increase green_nation = 1"
    by (simp add: domestic_policy_increase_def green_nation_def plain_nation_def)
  show ?thesis
    using open_markets_gross_total [OF p, of "calm_game 1" green_table DEFAULT_PRICES
        "Some ''green''" 0]
    by (simp add: c b d safe_city_income)
qed

subsection \<open>Military upkeep\<close>

lemma upkeep_coefficients:
  fixes a b c d e f :: real
  assumes "0 \<le> a" "0 \<le> b" "0 \<le> c" "0 \<le> d" "0 \<le> e" "0 \<le> f"
    and "0 < a \<or> 0 < b \<or> 0 < c \<or> 0 < d \<or> 0 < e \<or> 0 < f"
  shows "a * 1.25 + b * 50 + c * 500 + d * 3375 + e * 21000 + f * 35000
       < a * 1.88 + b * 75 + c * 750 + d * 5062.50 + e * 31500 + f * 52500"
proof -
  have "a * 1.25 \<le> a * 1.88" "b * 50 \<le> b * 75" "c * 500 \<le> c * 750"
    "d * 3375 \<le> d * 5062.50" "e * 21000 \<le> e * 31500" "f * 35000 \<le> f * 52500"
    using assms(1-6) by (simp_all add: mult_left_mono)
  moreover have "a * 1.25 < a * 1.88 \<or> b * 50 < b * 75 \<or> c * 500 < c * 750
    \<or> d * 3375 < d * 5062.50 \<or> e * 21000 < e * 31500 \<or> f * 35000 < f * 52500"
    using assms(7) by simp
  ultimately show ?thesis by linarith
qed

lemma policy_factor_pos: "0 < 1 - 0.05 * domestic_policy_increase n"
  by (simp add: domestic_policy_increase_def)

lemma military_step_upkeep_peace:
  "in_peace n \<Longrightarrow> military_upkeep (snd (military_step n s))
     = military_upkeep (snd s)
       + (of_int (soldiers n) * 1.25 + of_int (tanks n) * 50 + of_int (aircraft n) * 500
          + of_int (ships n) * 3375 + of_int (missiles n) * 21000 + of_int (nukes n) * 35000)
       + of_int (spies n) * 2400"
  by (simp add: military_step_def Let_def)

lemma military_step_upkeep_war:
  "\<not> in_peace n \<Longrightarrow> military_upkeep (snd (military_step n s))
     = military_upkeep (snd s)
       + (of_int (soldiers n) * 1.88 + of_int (tanks n) * 75 + of_int (aircraft n) * 750
          + of_int (ships n) * 5062.50 + of_int (missiles n) * 31500 + of_int (nukes n) * 52500)
       + of_int (spies n) * 2400"
  by (simp add: military_step_def Let_def)

text \<open>
  Claim C9, as amended.  For a nation at peace with non-negative unit counts and at least
  one soldier, tank, aircraft, ship, missile or nuke, the military upkeep of the same
  nation at war (offensive plus defensive wars above zero) is strictly greater, before
  and after the domestic-policy factor.  Spies do not count: their upkeep is 2400 each
  in both states.
\<close>

theorem war_upkeep_exceeds_peace:
  assumes peace: "offensive_wars_count n + defensive_wars_count n = 0"
    and war: "0 < ow + dw"
    and nonneg: "0 \<le> soldiers n" "0 \<le> tanks n" "0 \<le> aircraft n" "0 \<le> ships n"
      "0 \<le> missiles n" "0 \<le> nukes n"
    and some: "0 < soldiers n \<or> 0 < tanks n \<or> 0 < aircraft n \<or> 0 < ships n
      \<or> 0 < missiles n \<or> 0 < nukes n"
  shows "military_upkeep (snd (military_step n s))
           < military_upkeep (snd (military_step (at_war n ow dw) s))
         \<and> military_upkeep (policy_step n (snd (military_step n s)))
           < military_upkeep (policy_step (at_war n ow dw) (snd (military_step (at_war n ow dw) s)))"
proof -
  let ?w = "at_war n ow dw"
  have p: "in_peace n" using peace by (simp add: in_peace_def)
  have w: "\<not> in_peace ?w" using war by (simp add: in_peace_def at_war_def)
  have same: "soldiers ?w = soldiers n" "tanks ?w = tanks n" "aircraft ?w = aircraft n"
    "ships ?w = ships n" "missiles ?w = missiles n" "nukes ?w = nukes n" "spies ?w = spies n"
    by (simp_all add: at_war_def)
  have r: "(0::real) \<le> of_int (soldiers n)" "(0::real) \<le> of_int (tanks n)"
    "(0::real) \<le> of_int (aircraft n)" "(0::real) \<le> of_int (ships n)"
    "(0::real) \<le> of_int (missiles n)" "(0::real) \<le> of_int (nukes n)"
    using nonneg by simp_all
  have r': "(0::real) < of_int (soldiers n) \<or> (0::real) < of_int (tanks n)
    \<or> (0::real) < of_int (aircraft n) \<or> (0::real) < of_int (ships n)
    \<or> (0::real) < of_int (missiles n) \<or> (0::real) < of_int (nukes n)"
    using some by simp
  have lt: "military_upkeep (snd (military_step n s))
           < military_upkeep (snd (military_step ?w s))"
    unfolding military_step_upkeep_peace [OF p] military_step_upkeep_war [OF w] same
    using upkeep_coefficients [OF r r'] by simp
  have pol: "domestic_policy ?w = domestic_policy n"
    "domestic_policy_increase ?w = domestic_policy_increase n"
    by (simp_all add: at_war_def domestic_policy_increase_def)
  have "military_upkeep (policy_step n (snd (military_step n s)))
           < military_upkeep (policy_step ?w (snd (military_step ?w s)))"
    using lt policy_factor_pos [of n]
    by (simp add: policy_step_def pol)
  with lt show ?thesis by simp
qed

theorem war_upkeep_exceeds_peace_witness:
  "military_upkeep (snd (military_step tank_nation (initial_production, initial_income))) = 5300
   \<and> military_upkeep (snd (military_step (at_war tank_nation 1 0)
        (initial_production, initial_income))) = 5550"
  using war_upkeep_exceeds_peace [of tank_nation 1 0 "(initial_production, initial_income)"]
  by (simp add: tank_nation_def plain_nation_def at_war_def military_step_def Let_def
      in_peace_def initial_income_def)

text \<open>
  A nation whose only units are spies: one spy costs 2400 at peace and at war, so the
  wartime upkeep is not strictly greater although a unit count is positive.
\<close>

theorem spies_only_upkeep_counterexample:
  "0 < spies spy_nation
   \<and> offensive_wars_count spy_nation + defensive_wars_count spy_nation = 0
   \<and> 0 < offensive_wars_count (at_war spy_nation 1 0) + defensive_wars_count (at_war spy_nation 1 0)
   \<and> \<not> military_upkeep (snd (military_step spy_nation (initial_production, initial_income)))
         < military_upkeep (snd (military_step (at_war spy_nation 1 0)
             (initial_production, initial_income)))"
  by (simp add: spy_nation_def plain_nation_def at_war_def military_step_def Let_def
      in_peace_def initial_income_def)

subsection \<open>Alliance aggregation\<close>

lemma add_resource_fold:
  "fst (foldl (add_resource nr) (p, mr) resources) r = p r + rev_production nr r"
  "amount (snd (foldl (add_resource nr) (p, mr) resources) r)
     = amount (mr r) + amount (monetary_resources nr r)"
  "monetary_value (snd (foldl (add_resource nr) (p, mr) resources) r)
     = monetary_value (mr r) + monetary_value (monetary_resources nr r)"
  by (cases r; simp add: resources_def add_resource_def Let_def)+

lemma alliance_step_failed:
  "failed calc m \<Longrightarrow> alliance_step calc acc m = acc\<lparr>failed_nations := failed_nations acc + 1\<rparr>"
  by (auto simp add: failed_def alliance_step_def split: outcome.splits sum.splits)

lemma alliance_step_success:
  assumes "calc (member_id m) = Returned (Inr nr)"
  shows "alliance_production (alliance_step calc acc m) r
           = alliance_production acc r + rev_production nr r"
    and "amount (alliance_monetary_resources (alliance_step calc acc m) r)
           = amount (alliance_monetary_resources acc r) + amount (monetary_resources nr r)"
    and "monetary_value (alliance_monetary_resources (alliance_step calc acc m) r)
           = monetary_value (alliance_monetary_resources acc r)
             + monetary_value (monetary_resources nr r)"
    and "alliance_total_monetary_value (alliance_step calc acc m)
           = alliance_total_monetary_value acc + total_monetary_value nr"
    and "alliance_income (alliance_step calc acc m) = add_income (alliance_income acc) (income nr)"
    and "total_cities (alliance_step calc acc m) = total_cities acc + rev_num_cities nr"
    and "processed_nations (alliance_step calc acc m) = processed_nations acc + 1"
    and "failed_nations (alliance_step calc acc m) = failed_nations acc"
  using assms by (simp_all add: alliance_step_def Let_def add_resource_fold)


lemma outcome_cases:
  obtains (fail) "failed calc m" | (ok) nr where "calc (member_id m) = Returned (Inr nr)"
proof (cases "calc (member_id m)")
  case Raised
  then have "failed calc m" by (simp add: failed_def)
  then show ?thesis by (rule fail)
next
  case (Returned x)
  show ?thesis
  proof (cases x)
    case (Inl err)
    with Returned have "failed calc m" by (simp add: failed_def)
    then show ?thesis by (rule fail)
  next
    case (Inr nr)
    with Returned have "calc (member_id m) = Returned (Inr nr)" by simp
    then show ?thesis by (rule ok)
  qed
qed

lemma successes_failed: "failed calc m \<Longrightarrow> successes calc (m # ms) = successes calc ms"
  by (auto simp add: failed_def split: outcome.splits sum.splits)

lemma successes_ok:
  "calc (member_id m) = Returned (Inr nr) \<Longrightarrow> successes calc (m # ms) = nr # successes calc ms"
  by simp

lemma not_failed_ok: "calc (member_id m) = Returned (Inr nr) \<Longrightarrow> \<not> failed calc m"
  by (simp add: failed_def)

lemma fold_sum:
  fixes g :: "alliance_acc \<Rightarrow> 'a::comm_monoid_add"
  assumes f: "\<And>acc m. failed calc m \<Longrightarrow> g (alliance_step calc acc m) = g acc"
    and k: "\<And>acc m nr. calc (member_id m) = Returned (Inr nr)
              \<Longrightarrow> g (alliance_step calc acc m) = g acc + h nr"
  shows "g (foldl (alliance_step calc) acc ms) = g acc + sum_list (map h (successes calc ms))"
proof (induction ms arbitrary: acc)
  case Nil
  show ?case by simp
next
  case (Cons m ms)
  have step: "g (foldl (alliance_step calc) acc (m # ms))
      = g (alliance_step calc acc m) + sum_list (map h (successes calc ms))"
    using Cons.IH [of "alliance_step calc acc m"] by simp
  show ?case
  proof (cases rule: outcome_cases [of calc m])
    case fail
    have "successes calc (m # ms) = successes calc ms"
      using fail by (rule successes_failed)
    moreover have "g (alliance_step calc acc m) = g acc"
      using fail by (rule f)
    ultimately show ?thesis using step by simp
  next
    case (ok nr)
    have "successes calc (m # ms) = nr # successes calc ms"
      using ok by (rule successes_ok)
    moreover have "g (alliance_step calc acc m) = g acc + h nr"
      using ok by (rule k)
    ultimately show ?thesis using step by (simp add: add.assoc)
  qed
qed

lemma fold_failed:
  "failed_nations (foldl (alliance_step calc) acc ms)
     = failed_nations acc + length (filter (failed calc) ms)"
proof (induction ms arbitrary: acc)
  case Nil
  show ?case by simp
next
  case (Cons m ms)
  have step: "failed_nations (foldl (alliance_step calc) acc (m # ms))
      = failed_nations (alliance_step calc acc m) + length (filter (failed calc) ms)"
    using Cons.IH [of "alliance_step calc acc m"] by simp
  show ?case
  proof (cases rule: outcome_cases [of calc m])
    case fail
    have "alliance_step calc acc m = acc\<lparr>failed_nations := failed_nations acc + 1\<rparr>"
      using fail by (rule alliance_step_failed)
    then show ?thesis using step fail by simp
  next
    case (ok nr)
    have "failed_nations (alliance_step calc acc m) = failed_nations acc"
      using ok by (rule alliance_step_success(8))
    moreover have "\<not> failed calc m"
      using ok by (rule not_failed_ok)
    ultimately show ?thesis using step by simp
  qed
qed

lemma length_successes:
  "length (successes calc ms) + length (filter (failed calc) ms) = length ms"
proof (induction ms)
  case Nil
  show ?case by simp
next
  case (Cons m ms)
  show ?case
  proof (cases rule: outcome_cases [of calc m])
    case fail
    have "successes calc (m # ms) = successes calc ms"
      using fail by (rule successes_failed)
    then show ?thesis using Cons.IH fail by simp
  next
    case (ok nr)
    have "successes calc (m # ms) = nr # successes calc ms"
      using ok by (rule successes_ok)
    moreover have "\<not> failed calc m"
      using ok by (rule not_failed_ok)
    ultimately show ?thesis using Cons.IH by simp
  qed
qed

lemma successes_are_reports:
  "map (\<lambda>m. calc (member_id m)) (filter (\<lambda>m. \<not> failed calc m) ms)
     = map (\<lambda>nr. Returned (Inr nr)) (successes calc ms)"
proof (induction ms)
  case Nil
  show ?case by simp
next
  case (Cons m ms)
  show ?case
  proof (cases rule: outcome_cases [of calc m])
    case fail
    have "successes calc (m # ms) = successes calc ms"
      using fail by (rule successes_failed)
    then show ?thesis using Cons.IH fail by simp
  next
    case (ok nr)
    have "successes calc (m # ms) = nr # successes calc ms"
      using ok by (rule successes_ok)
    moreover have "\<not> failed calc m"
      using ok by (rule not_failed_ok)
    ultimately show ?thesis using Cons.IH ok by simp
  qed
qed

lemma fold_processed:
  "processed_nations (foldl (alliance_step calc) acc ms)
     = processed_nations acc + length (successes calc ms)"
proof -
  have "processed_nations (foldl (alliance_step calc) acc ms)
     = processed_nations acc + sum_list (map (\<lambda>_. 1) (successes calc ms))"
    by (rule fold_sum [where g = processed_nations and h = "\<lambda>_. 1"])
      (simp_all add: alliance_step_failed alliance_step_success(7))
  then show ?thesis by (simp add: sum_list_triv)
qed

lemma fold_production:
  "alliance_production (foldl (alliance_step calc) acc ms) r
     = alliance_production acc r + (\<Sum>nr\<leftarrow>successes calc ms. rev_production nr r)"
  by (rule fold_sum [where g = "\<lambda>a. alliance_production a r"
        and h = "\<lambda>nr. rev_production nr r"])
    (simp_all add: alliance_step_failed alliance_step_success(1))

lemma fold_amount:
  "amount (alliance_monetary_resources (foldl (alliance_step calc) acc ms) r)
     = amount (alliance_monetary_resources acc r)
       + (\<Sum>nr\<leftarrow>successes calc ms. amount (monetary_resources nr r))"
  by (rule fold_sum [where g = "\<lambda>a. amount (alliance_monetary_resources a r)"
        and h = "\<lambda>nr. amount (monetary_resources nr r)"])
    (simp_all add: alliance_step_failed alliance_step_success(2))

lemma fold_value:
  "monetary_value (alliance_monetary_resources (foldl (alliance_step calc) acc ms) r)
     = monetary_value (alliance_monetary_resources acc r)
       + (\<Sum>nr\<leftarrow>successes calc ms. monetary_value (monetary_resources nr r))"
  by (rule fold_sum [where g = "\<lambda>a. monetary_value (alliance_monetary_resources a r)"
        and h = "\<lambda>nr. monetary_value (monetary_resources nr r)"])
    (simp_all add: alliance_step_failed alliance_step_success(3))

lemma fold_total_value:
  "alliance_total_monetary_value (foldl (alliance_step calc) acc ms)
     = alliance_total_monetary_value acc + (\<Sum>nr\<leftarrow>successes calc ms. total_monetary_value nr)"
  by (rule fold_sum [where g = alliance_total_monetary_value and h = total_monetary_value])
    (simp_all add: alliance_step_failed alliance_step_success(4))

lemma fold_cities:
  "total_cities (foldl (alliance_step calc) acc ms)
     = total_cities acc + (\<Sum>nr\<leftarrow>successes calc ms. rev_num_cities nr)"
  by (rule fold_sum [where g = total_cities and h = rev_num_cities])
    (simp_all add: alliance_step_failed alliance_step_success(6))

lemma fold_income:
  fixes sel :: "income_report \<Rightarrow> real"
  assumes "\<And>a i. sel (add_income a i) = sel a + sel i"
  shows "sel (alliance_income (foldl (alliance_step calc) acc ms))
     = sel (alliance_income acc) + (\<Sum>nr\<leftarrow>successes calc ms. sel (income nr))"
  by (rule fold_sum [where g = "\<lambda>a. sel (alliance_income a)" and h = "\<lambda>nr. sel (income nr)"])
    (simp_all add: alliance_step_failed alliance_step_success(5) assms)


lemma add_income_fields:
  "gross_income (add_income a i) = gross_income a + gross_income i"
  "military_upkeep (add_income a i) = military_upkeep a + military_upkeep i"
  "improvement_upkeep (add_income a i) = improvement_upkeep a + improvement_upkeep i"
  "color_bonus (add_income a i) = color_bonus a + color_bonus i"
  "gross_total (add_income a i) = gross_total a + gross_total i"
  "gross_upkeep (add_income a i) = gross_upkeep a + gross_upkeep i"
  "net_income (add_income a i) = net_income a + net_income i"
  "monetary_net_income (add_income a i) = monetary_net_income a + monetary_net_income i"
  by (simp_all add: add_income_def)

lemma report_fields:
  "member_count (alliance_revenue_of calc ad) = length (member_nations ad)"
  "processed_nations (alliance_revenue_of calc ad)
     = processed_nations (foldl (alliance_step calc) initial_alliance_acc (member_nations ad))"
  "failed_nations (alliance_revenue_of calc ad)
     = failed_nations (foldl (alliance_step calc) initial_alliance_acc (member_nations ad))"
  "alliance_production (alliance_revenue_of calc ad)
     = alliance_production (foldl (alliance_step calc) initial_alliance_acc (member_nations ad))"
  "alliance_monetary_resources (alliance_revenue_of calc ad)
     = alliance_monetary_resources
         (foldl (alliance_step calc) initial_alliance_acc (member_nations ad))"
  "alliance_total_monetary_value (alliance_revenue_of calc ad)
     = alliance_total_monetary_value
         (foldl (alliance_step calc) initial_alliance_acc (member_nations ad))"
  "alliance_income (alliance_revenue_of calc ad)
     = alliance_income (foldl (alliance_step calc) initial_alliance_acc (member_nations ad))"
  "total_cities (alliance_revenue_of calc ad)
     = total_cities (foldl (alliance_step calc) initial_alliance_acc (member_nations ad))"
  by (simp_all add: alliance_revenue_of_def Let_def)

lemma initial_fields:
  "processed_nations initial_alliance_acc = 0"
  "failed_nations initial_alliance_acc = 0"
  "alliance_production initial_alliance_acc r = 0"
  "amount (alliance_monetary_resources initial_alliance_acc r) = 0"
  "monetary_value (alliance_monetary_resources initial_alliance_acc r) = 0"
  "alliance_total_monetary_value initial_alliance_acc = 0"
  "total_cities initial_alliance_acc = 0"
  "gross_income (alliance_income initial_alliance_acc) = 0"
  "military_upkeep (alliance_income initial_alliance_acc) = 0"
  "improvement_upkeep (alliance_income initial_alliance_acc) = 0"
  "color_bonus (alliance_income initial_alliance_acc) = 0"
  "gross_total (alliance_income initial_alliance_acc) = 0"
  "gross_upkeep (alliance_income initial_alliance_acc) = 0"
  "net_income (alliance_income initial_alliance_acc) = 0"
  "monetary_net_income (alliance_income initial_alliance_acc) = 0"
  by (simp_all add: initial_alliance_acc_def)

lemma all_succeed:
  "(\<forall>m \<in> set ms. \<not> failed calc m) \<Longrightarrow> filter (failed calc) ms = []
     \<and> filter (\<lambda>m. \<not> failed calc m) ms = ms"
  by (induction ms) simp_all

text \<open>
  Claim C5.  Over the members that are not applicants, the processed and the failed
  counts add up to the member count: the processed count is the number of members whose
  call returned a report, the failed count the number of those whose call returned an
  error or raised.  A failing member changes nothing but the failed count, and the loop
  goes on.  Every aggregated number (production, amount and value of each resource, total
  monetary value, each of the eight income fields, total cities) is the sum of that
  field over the reports of the successful members, which are exactly the answers of the
  members that did not fail.  When no member fails, the failed count is 0 and the
  alliance's net income is the sum of all members' net incomes.
\<close>

theorem alliance_aggregation:
  "member_count (alliance_revenue_of calc ad) = length (member_nations ad)
   \<and> processed_nations (alliance_revenue_of calc ad) + failed_nations (alliance_revenue_of calc ad) = member_count (alliance_revenue_of calc ad)
   \<and> processed_nations (alliance_revenue_of calc ad) = length (successes calc (member_nations ad))
   \<and> failed_nations (alliance_revenue_of calc ad) = length (filter (failed calc) (member_nations ad))
   \<and> (failed calc m \<longrightarrow> alliance_step calc acc m = acc\<lparr>failed_nations := failed_nations acc + 1\<rparr>)
   \<and> map (\<lambda>m. calc (member_id m)) (filter (\<lambda>m. \<not> failed calc m) (member_nations ad))
       = map (\<lambda>nr. Returned (Inr nr)) (successes calc (member_nations ad))
   \<and> alliance_production (alliance_revenue_of calc ad) r = (\<Sum>nr\<leftarrow>successes calc (member_nations ad). rev_production nr r)
   \<and> amount (alliance_monetary_resources (alliance_revenue_of calc ad) r)
       = (\<Sum>nr\<leftarrow>successes calc (member_nations ad). amount (monetary_resources nr r))
   \<and> monetary_value (alliance_monetary_resources (alliance_revenue_of calc ad) r)
       = (\<Sum>nr\<leftarrow>successes calc (member_nations ad). monetary_value (monetary_resources nr r))
   \<and> alliance_total_monetary_value (alliance_revenue_of calc ad)
       = (\<Sum>nr\<leftarrow>successes calc (member_nations ad). total_monetary_value nr)
   \<and> gross_income (alliance_income (alliance_revenue_of calc ad))
       = (\<Sum>nr\<leftarrow>successes calc (member_nations ad). gross_income (income nr))
   \<and> military_upkeep (alliance_income (alliance_revenue_of calc ad))
       = (\<Sum>nr\<leftarrow>successes calc (member_nations ad). military_upkeep (income nr))
   \<and> improvement_upkeep (alliance_income (alliance_revenue_of calc ad))
       = (\<Sum>nr\<leftarrow>successes calc (member_nations ad). improvement_upkeep (income nr))
   \<and> color_bonus (alliance_income (alliance_revenue_of calc ad))
       = (\<Sum>nr\<leftarrow>successes calc (member_nations ad). color_bonus (income nr))
   \<and> gross_total (alliance_income (alliance_revenue_of calc ad))
       = (\<Sum>nr\<leftarrow>successes calc (member_nations ad). gross_total (income nr))
   \<and> gross_upkeep (alliance_income (alliance_revenue_of calc ad))
       = (\<Sum>nr\<leftarrow>successes calc (member_nations ad). gross_upkeep (income nr))
   \<and> net_income (alliance_income (alliance_revenue_of calc ad))
       = (\<Sum>nr\<leftarrow>successes calc (member_nations ad). net_income (income nr))
   \<and> monetary_net_income (alliance_income (alliance_revenue_of calc ad))
       = (\<Sum>nr\<leftarrow>successes calc (member_nations ad). monetary_net_income (income nr))
   \<and> total_cities (alliance_revenue_of calc ad) = (\<Sum>nr\<leftarrow>successes calc (member_nations ad). rev_num_cities nr)
   \<and> ((\<forall>m \<in> set (member_nations ad). \<not> failed calc m)
      \<longrightarrow> failed_nations (alliance_revenue_of calc ad) = 0
          \<and> processed_nations (alliance_revenue_of calc ad) = member_count (alliance_revenue_of calc ad)
          \<and> map (\<lambda>m. calc (member_id m)) (member_nations ad)
              = map (\<lambda>nr. Returned (Inr nr)) (successes calc (member_nations ad))
          \<and> net_income (alliance_income (alliance_revenue_of calc ad))
              = (\<Sum>nr\<leftarrow>successes calc (member_nations ad). net_income (income nr)))"
proof -
  let ?ms = "member_nations ad"
  let ?R = "alliance_revenue_of calc ad"
  have count: "member_count ?R = length ?ms"
    by (rule report_fields(1))
  have proc: "processed_nations ?R = length (successes calc ?ms)"
    by (simp add: report_fields(2) fold_processed initial_fields)
  have fail: "failed_nations ?R = length (filter (failed calc) ?ms)"
    by (simp add: report_fields(3) fold_failed initial_fields)
  have total: "processed_nations ?R + failed_nations ?R = member_count ?R"
    unfolding proc fail count by (rule length_successes)
  have step: "failed calc m \<longrightarrow>
      alliance_step calc acc m = acc\<lparr>failed_nations := failed_nations acc + 1\<rparr>"
    by (simp add: alliance_step_failed)
  have reports: "map (\<lambda>m. calc (member_id m)) (filter (\<lambda>m. \<not> failed calc m) ?ms)
       = map (\<lambda>nr. Returned (Inr nr)) (successes calc ?ms)"
    by (rule successes_are_reports)
  have prod: "alliance_production ?R r = (\<Sum>nr\<leftarrow>successes calc ?ms. rev_production nr r)"
    by (simp add: report_fields(4) fold_production initial_fields)
  have am: "amount (alliance_monetary_resources ?R r)
       = (\<Sum>nr\<leftarrow>successes calc ?ms. amount (monetary_resources nr r))"
    by (simp add: report_fields(5) fold_amount initial_fields)
  have va: "monetary_value (alliance_monetary_resources ?R r)
       = (\<Sum>nr\<leftarrow>successes calc ?ms. monetary_value (monetary_resources nr r))"
    by (simp add: report_fields(5) fold_value initial_fields)
  have tv: "alliance_total_monetary_value ?R
       = (\<Sum>nr\<leftarrow>successes calc ?ms. total_monetary_value nr)"
    by (simp add: report_fields(6) fold_total_value initial_fields)
  have inc: "sel (alliance_income ?R) = (\<Sum>nr\<leftarrow>successes calc ?ms. sel (income nr))"
    if "\<And>a i. sel (add_income a i) = sel a + sel i" "sel (alliance_income initial_alliance_acc) = 0"
    for sel :: "income_report \<Rightarrow> real"
    unfolding report_fields(7) using fold_income [of sel calc initial_alliance_acc ?ms] that
    by simp
  have i1: "gross_income (alliance_income ?R)
       = (\<Sum>nr\<leftarrow>successes calc ?ms. gross_income (income nr))"
    by (rule inc) (simp_all add: add_income_fields initial_fields)
  have i2: "military_upkeep (alliance_income ?R)
       = (\<Sum>nr\<leftarrow>successes calc ?ms. military_upkeep (income nr))"
    by (rule inc) (simp_all add: add_income_fields initial_fields)
  have i3: "improvement_upkeep (alliance_income ?R)
       = (\<Sum>nr\<leftarrow>successes calc ?ms. improvement_upkeep (income nr))"
    by (rule inc) (simp_all add: add_income_fields initial_fields)
  have i4: "color_bonus (alliance_income ?R)
       = (\<Sum>nr\<leftarrow>successes calc ?ms. color_bonus (income nr))"
    by (rule inc) (simp_all add: add_income_fields initial_fields)
  have i5: "gross_total (alliance_income ?R)
       = (\<Sum>nr\<leftarrow>successes calc ?ms. gross_total (income nr))"
    by (rule inc) (simp_all add: add_income_fields initial_fields)
  have i6: "gross_upkeep (alliance_income ?R)
       = (\<Sum>nr\<leftarrow>successes calc ?ms. gross_upkeep (income nr))"
    by (rule inc) (simp_all add: add_income_fields initial_fields)
  have i7: "net_income (alliance_income ?R)
       = (\<Sum>nr\<leftarrow>successes calc ?ms. net_income (income nr))"
    by (rule inc) (simp_all add: add_income_fields initial_fields)
  have i8: "monetary_net_income (alliance_income ?R)
       = (\<Sum>nr\<leftarrow>successes calc ?ms. monetary_net_income (income nr))"
    by (rule inc) (simp_all add: add_income_fields initial_fields)
  have tc: "total_cities ?R = (\<Sum>nr\<leftarrow>successes calc ?ms. rev_num_cities nr)"
    by (simp add: report_fields(8) fold_cities initial_fields)
  have allok: "(\<forall>m \<in> set ?ms. \<not> failed calc m)
      \<longrightarrow> failed_nations ?R = 0
          \<and> processed_nations ?R = member_count ?R
          \<and> map (\<lambda>m. calc (member_id m)) ?ms
              = map (\<lambda>nr. Returned (Inr nr)) (successes calc ?ms)
          \<and> net_income (alliance_income ?R)
              = (\<Sum>nr\<leftarrow>successes calc ?ms. net_income (income nr))"
  proof
    assume a: "\<forall>m \<in> set ?ms. \<not> failed calc m"
    note e = all_succeed [OF a]
    have f0: "failed_nations ?R = 0"
      using fail e by simp
    moreover have "processed_nations ?R = member_count ?R"
      using total f0 by simp
    moreover have "map (\<lambda>m. calc (member_id m)) ?ms
              = map (\<lambda>nr. Returned (Inr nr)) (successes calc ?ms)"
      using reports e by simp
    ultimately show "failed_nations ?R = 0
          \<and> processed_nations ?R = member_count ?R
          \<and> map (\<lambda>m. calc (member_id m)) ?ms
              = map (\<lambda>nr. Returned (Inr nr)) (successes calc ?ms)
          \<and> net_income (alliance_income ?R)
              = (\<Sum>nr\<leftarrow>successes calc ?ms. net_income (income nr))"
      using i7 by blast
  qed
  show ?thesis
    using count total proc fail step reports prod am va tv i1 i2 i3 i4 i5 i6 i7 i8 tc allok
    by blast
qed

theorem alliance_aggregation_witness:
  "member_count (alliance_revenue_of sample_calc sample_alliance) = 3
   \<and> processed_nations (alliance_revenue_of sample_calc sample_alliance) = 2
   \<and> failed_nations (alliance_revenue_of sample_calc sample_alliance) = 1
   \<and> net_income (alliance_income (alliance_revenue_of sample_calc sample_alliance)) = 900
   \<and> alliance_production (alliance_revenue_of sample_calc sample_alliance) Food = 150
   \<and> total_cities (alliance_revenue_of sample_calc sample_alliance) = 10"
  using alliance_aggregation [where calc = sample_calc and ad = sample_alliance and r = Food
      and acc = initial_alliance_acc
      and m = "\<lparr>member_id = 2, member_name = ''Two'', alliance_position = ''MEMBER''\<rparr>"]
  by (simp add: sample_calc_def sample_alliance_def member_nations_def failed_def
      flat_revenue_def)

subsection \<open>Rounding to the nearest integer and to two decimals\<close>

lemma py_round_unique:
  assumes "of_int k - 1 / 2 < a" "a < of_int k + 1 / 2"
  shows "py_round a = k"
proof (cases "of_int k \<le> a")
  case True
  then have f: "\<lfloor>a\<rfloor> = k" using assms by (intro floor_unique) linarith+
  show ?thesis unfolding py_round_def Let_def f using assms by simp
next
  case False
  then have f: "\<lfloor>a\<rfloor> = k - 1" using assms by (intro floor_unique) (simp; linarith)+
  show ?thesis unfolding py_round_def Let_def f using assms False by simp
qed

lemma py_round_stable:
  assumes "\<bar>a - y\<bar> < \<bar>y - of_int \<lfloor>y\<rfloor> - 1 / 2\<bar>"
  shows "py_round a = py_round y"
proof -
  define f where "f = \<lfloor>y\<rfloor>"
  have fl: "of_int f \<le> y" "y < of_int f + 1"
    unfolding f_def by linarith+
  consider "y - of_int f < 1 / 2" | "1 / 2 < y - of_int f"
    using assms unfolding f_def by fastforce
  then show ?thesis
  proof cases
    case 1
    have "py_round y = f"
      using 1 fl by (intro py_round_unique) linarith+
    moreover have "py_round a = f"
      using 1 fl assms unfolding f_def [symmetric] by (intro py_round_unique) linarith+
    ultimately show ?thesis by simp
  next
    case 2
    have "py_round y = f + 1"
      using 2 fl by (intro py_round_unique) (simp; linarith)+
    moreover have "py_round a = f + 1"
      using 2 fl assms unfolding f_def [symmetric] by (intro py_round_unique) (simp; linarith)+
    ultimately show ?thesis by simp
  qed
qed

lemma round_2dp_py_round: "round_2dp x = of_int (py_round (x * 100)) / 100"
proof -
  define h where "h = x * 100"
  define f where "f = \<lfloor>h\<rfloor>"
  have fl: "of_int f \<le> h" "h < of_int f + 1"
    unfolding f_def by linarith+
  consider "h - of_int f < 1 / 2" | "1 / 2 < h - of_int f" | "h - of_int f = 1 / 2"
    by linarith
  then show ?thesis
  proof cases
    case 1
    have k: "\<lfloor>h + 1 / 2\<rfloor> = f" using 1 fl by (intro floor_unique) linarith+
    have "of_int f \<noteq> h + 1 / 2" using fl by linarith
    moreover have "py_round h = f" using 1 by (simp add: py_round_def Let_def f_def)
    ultimately show ?thesis
      unfolding round_2dp_def Let_def h_def [symmetric] k by simp
  next
    case 2
    have k: "\<lfloor>h + 1 / 2\<rfloor> = f + 1" using 2 fl by (intro floor_unique) (simp; linarith)+
    have "of_int (f + 1) \<noteq> h + 1 / 2" using 2 by simp
    moreover have "py_round h = f + 1" using 2 by (simp add: py_round_def Let_def f_def)
    ultimately show ?thesis
      unfolding round_2dp_def Let_def h_def [symmetric] k by simp
  next
    case 3
    have k: "\<lfloor>h + 1 / 2\<rfloor> = f + 1" using 3 fl by (intro floor_unique) (simp; linarith)+
    have t: "of_int (f + 1) = h + 1 / 2" using 3 by simp
    have p: "py_round h = (if even f then f else f + 1)"
      using 3 by (simp add: py_round_def Let_def f_def)
    show ?thesis
      unfolding round_2dp_def Let_def h_def [symmetric] k using t p by simp
  qed
qed

subsection \<open>Binary64 rounding and its relative error\<close>

text \<open>
  Each operation is off by at most \<open>2\<^sup>-\<^sup>5\<^sup>3\<close> of its exact result; a value known up to
  \<open>n\<close> such units is known up to \<open>n + 2\<close> after one more rounding, and a product of two
  such values up to \<open>n\<^sub>1 + n\<^sub>2 + 1\<close>.
\<close>

lemma binary64_zero: "binary64 0 = 0"
  by (simp add: binary64_def)

lemma binary64_error: "\<bar>binary64 x - x\<bar> \<le> \<bar>x\<bar> / 2 ^ 53"
proof (cases "x = 0")
  case True
  then show ?thesis by (simp add: binary64_def)
next
  case False
  define e where "e = \<lfloor>log 2 \<bar>x\<bar>\<rfloor>"
  define ulp :: real where "ulp = 2 powr (of_int e - 52)"
  have pos: "0 < ulp" by (simp add: ulp_def)
  have b: "binary64 x = of_int (py_round (x / ulp)) * ulp"
    using False by (simp add: binary64_def Let_def e_def ulp_def)
  have "of_int e \<le> log 2 \<bar>x\<bar>" unfolding e_def by simp
  then have "2 powr of_int e \<le> 2 powr (log 2 \<bar>x\<bar>)" by simp
  then have low: "2 powr of_int e \<le> \<bar>x\<bar>" using False by simp
  have u: "ulp = 2 powr of_int e / 2 ^ 52"
    unfolding ulp_def by (simp add: powr_diff)
  have "\<bar>binary64 x - x\<bar> = \<bar>of_int (py_round (x / ulp)) - x / ulp\<bar> * ulp"
  proof -
    have "binary64 x - x = (of_int (py_round (x / ulp)) - x / ulp) * ulp"
      using pos by (simp add: b field_simps)
    then show ?thesis using pos by (simp add: abs_mult)
  qed
  also have "\<dots> \<le> (1 / 2) * ulp"
    using py_round_near [of "x / ulp"] pos by (intro mult_right_mono) simp_all
  also have "\<dots> = 2 powr of_int e / 2 ^ 53"
    by (simp add: u)
  also have "\<dots> \<le> \<bar>x\<bar> / 2 ^ 53"
    using low by (simp add: divide_right_mono)
  finally show ?thesis .
qed

lemma binary64_scaled:
  fixes m :: nat
  assumes "2 ^ 52 \<le> \<bar>x\<bar> * 2 ^ m" "\<bar>x\<bar> * 2 ^ m < 2 ^ 53"
  shows "binary64 x = of_int (py_round (x * 2 ^ m)) / 2 ^ m"
proof -
  have nz: "x \<noteq> 0" using assms(1) by auto
  have p: "(2::real) powr (52 - of_nat m) = 2 ^ 52 / 2 ^ m"
    by (simp add: powr_diff powr_realpow)
  have p1: "(2::real) powr (52 - of_nat m + 1) = 2 ^ 53 / 2 ^ m"
    by (simp add: powr_diff powr_add powr_realpow)
  have "\<lfloor>log 2 \<bar>x\<bar>\<rfloor> = 52 - int m"
  proof (rule floor_unique)
    have "2 powr (52 - of_nat m) \<le> \<bar>x\<bar>"
      unfolding p using assms(1) by (simp add: field_simps)
    then have "log 2 (2 powr (52 - of_nat m)) \<le> log 2 \<bar>x\<bar>"
      using nz by (subst log_le_cancel_iff) simp_all
    then show "of_int (52 - int m) \<le> log 2 \<bar>x\<bar>" by simp
    have "\<bar>x\<bar> < 2 powr (52 - of_nat m + 1)"
      unfolding p1 using assms(2) by (simp add: field_simps)
    then have "log 2 \<bar>x\<bar> < log 2 (2 powr (52 - of_nat m + 1))"
      using nz by (subst log_less_cancel_iff) simp_all
    then show "log 2 \<bar>x\<bar> < of_int (52 - int m) + 1" by simp
  qed
  then have e: "of_int \<lfloor>log 2 \<bar>x\<bar>\<rfloor> - 52 = - real m" by simp
  have ulp: "(2::real) powr (- real m) = 1 / 2 ^ m"
    by (simp add: powr_minus powr_realpow divide_inverse)
  show ?thesis
    using nz unfolding binary64_def Let_def e ulp by simp
qed

lemma rel_fl:
  fixes a b n :: real
  assumes "\<bar>a - b\<bar> \<le> n / 2 ^ 53 * \<bar>b\<bar>" "0 \<le> n" "n \<le> 1000"
  shows "\<bar>binary64 a - b\<bar> \<le> (n + 2) / 2 ^ 53 * \<bar>b\<bar>"
proof -
  define u :: real where "u = 1 / 2 ^ 53"
  have u: "0 < u" "1000 * u \<le> 1" by (simp_all add: u_def)
  have h: "\<bar>a - b\<bar> \<le> n * u * \<bar>b\<bar>"
    using assms(1) by (simp add: u_def)
  have e: "\<bar>binary64 a - a\<bar> \<le> \<bar>a\<bar> * u"
    using binary64_error [of a] by (simp add: u_def)
  have nu: "n * u \<le> 1"
  proof -
    have "n * u \<le> 1000 * u" using assms(3) u(1) by (intro mult_right_mono) simp_all
    then show ?thesis using u(2) by linarith
  qed
  have ab: "\<bar>a\<bar> \<le> \<bar>b\<bar> + n * u * \<bar>b\<bar>"
    using h by linarith
  have "n * u * \<bar>b\<bar> \<le> 1 * \<bar>b\<bar>"
    using nu by (intro mult_right_mono) simp_all
  then have "\<bar>a\<bar> \<le> 2 * \<bar>b\<bar>" using ab by linarith
  then have "\<bar>a\<bar> * u \<le> 2 * \<bar>b\<bar> * u"
    using u(1) by (intro mult_right_mono) simp_all
  then have "\<bar>binary64 a - a\<bar> \<le> 2 * u * \<bar>b\<bar>"
    using e by (simp add: mult.commute mult.left_commute)
  then have "\<bar>binary64 a - b\<bar> \<le> 2 * u * \<bar>b\<bar> + n * u * \<bar>b\<bar>"
    using h by linarith
  also have "\<dots> = (n + 2) * u * \<bar>b\<bar>"
    by (simp add: algebra_simps)
  finally show ?thesis by (simp add: u_def)
qed

lemma abs_product_split:
  fixes a1 b1 a2 b2 :: real
  shows "\<bar>a1 * a2 - b1 * b2\<bar>
      \<le> \<bar>a1 - b1\<bar> * \<bar>a2 - b2\<bar> + \<bar>b1\<bar> * \<bar>a2 - b2\<bar> + \<bar>a1 - b1\<bar> * \<bar>b2\<bar>"
proof -
  have "a1 * a2 - b1 * b2 = (a1 - b1) * (a2 - b2) + b1 * (a2 - b2) + (a1 - b1) * b2"
    by (simp add: algebra_simps)
  then have "\<bar>a1 * a2 - b1 * b2\<bar>
      = \<bar>(a1 - b1) * (a2 - b2) + b1 * (a2 - b2) + (a1 - b1) * b2\<bar>"
    by simp
  also have "\<dots> \<le> \<bar>(a1 - b1) * (a2 - b2)\<bar> + \<bar>b1 * (a2 - b2)\<bar> + \<bar>(a1 - b1) * b2\<bar>"
    by (rule order_trans [OF abs_triangle_ineq]) (simp add: abs_triangle_ineq)
  finally show ?thesis by (simp add: abs_mult)
qed

lemma rel_mult:
  fixes a1 b1 a2 b2 n1 n2 :: real
  assumes "\<bar>a1 - b1\<bar> \<le> n1 / 2 ^ 53 * \<bar>b1\<bar>" "\<bar>a2 - b2\<bar> \<le> n2 / 2 ^ 53 * \<bar>b2\<bar>"
    and "0 \<le> n1" "n1 \<le> 1000" "0 \<le> n2" "n2 \<le> 1000"
  shows "\<bar>a1 * a2 - b1 * b2\<bar> \<le> (n1 + n2 + 1) / 2 ^ 53 * \<bar>b1 * b2\<bar>"
proof -
  define u :: real where "u = 1 / 2 ^ 53"
  have u: "0 < u" "1000 * 1000 * u \<le> 1" by (simp_all add: u_def)
  define c1 where "c1 = n1 * u"
  define c2 where "c2 = n2 * u"
  have c: "0 \<le> c1" "0 \<le> c2" using assms(3,5) u(1) by (simp_all add: c1_def c2_def)
  have h1: "\<bar>a1 - b1\<bar> \<le> c1 * \<bar>b1\<bar>" and h2: "\<bar>a2 - b2\<bar> \<le> c2 * \<bar>b2\<bar>"
    using assms(1,2) by (simp_all add: c1_def c2_def u_def)
  have cc: "c1 * c2 \<le> u"
  proof -
    have "n1 * n2 \<le> 1000 * 1000"
      using assms(3-6) by (intro mult_mono) simp_all
    then have "n1 * n2 * u \<le> 1000 * 1000 * u"
      using u(1) by (intro mult_right_mono) simp_all
    then have "n1 * n2 * u \<le> 1" using u(2) by linarith
    then have "n1 * n2 * u * u \<le> 1 * u"
      using u(1) by (intro mult_right_mono) simp_all
    then show ?thesis by (simp add: c1_def c2_def algebra_simps)
  qed
  have p1: "\<bar>a1 - b1\<bar> * \<bar>a2 - b2\<bar> \<le> (c1 * \<bar>b1\<bar>) * (c2 * \<bar>b2\<bar>)"
    using h1 h2 c by (intro mult_mono) simp_all
  have p2: "\<bar>b1\<bar> * \<bar>a2 - b2\<bar> \<le> \<bar>b1\<bar> * (c2 * \<bar>b2\<bar>)"
    using h2 by (intro mult_left_mono) simp_all
  have p3: "\<bar>a1 - b1\<bar> * \<bar>b2\<bar> \<le> (c1 * \<bar>b1\<bar>) * \<bar>b2\<bar>"
    using h1 by (intro mult_right_mono) simp_all
  define m where "m = \<bar>b1\<bar> * \<bar>b2\<bar>"
  have m: "0 \<le> m" by (simp add: m_def)
  have "\<bar>a1 * a2 - b1 * b2\<bar> \<le> (c1 * \<bar>b1\<bar>) * (c2 * \<bar>b2\<bar>) + \<bar>b1\<bar> * (c2 * \<bar>b2\<bar>) + (c1 * \<bar>b1\<bar>) * \<bar>b2\<bar>"
    using abs_product_split [of a1 a2 b1 b2] p1 p2 p3 by linarith
  also have "\<dots> = (c1 * c2) * m + c2 * m + c1 * m"
    by (simp add: m_def algebra_simps)
  also have "\<dots> \<le> u * m + c2 * m + c1 * m"
    using cc m by (intro add_mono mult_right_mono) simp_all
  also have "\<dots> = (n1 + n2 + 1) * u * m"
    by (simp add: c1_def c2_def algebra_simps)
  finally show ?thesis by (simp add: u_def m_def abs_mult)
qed

lemma rel_times_const:
  fixes a b c k :: real
  assumes "\<bar>a - b\<bar> \<le> c * \<bar>b\<bar>"
  shows "\<bar>a * k - b * k\<bar> \<le> c * \<bar>b * k\<bar>" and "\<bar>k * a - k * b\<bar> \<le> c * \<bar>k * b\<bar>"
    and "\<bar>a / k - b / k\<bar> \<le> c * \<bar>b / k\<bar>"
proof -
  have "a * k - b * k = (a - b) * k" by (simp add: algebra_simps)
  then have "\<bar>a * k - b * k\<bar> = \<bar>a - b\<bar> * \<bar>k\<bar>"
    by (simp add: abs_mult)
  also have "\<dots> \<le> (c * \<bar>b\<bar>) * \<bar>k\<bar>"
    using assms by (intro mult_right_mono) simp_all
  finally show 1: "\<bar>a * k - b * k\<bar> \<le> c * \<bar>b * k\<bar>"
    by (simp add: abs_mult mult.assoc)
  then show "\<bar>k * a - k * b\<bar> \<le> c * \<bar>k * b\<bar>"
    by (simp add: mult.commute)
  have "a / k - b / k = (a - b) / k" by (simp add: diff_divide_distrib)
  then have "\<bar>a / k - b / k\<bar> = \<bar>a - b\<bar> / \<bar>k\<bar>"
    by simp
  also have "\<dots> \<le> (c * \<bar>b\<bar>) / \<bar>k\<bar>"
    using assms by (intro divide_right_mono) simp_all
  finally show "\<bar>a / k - b / k\<bar> \<le> c * \<bar>b / k\<bar>"
    by simp
qed

lemma bonus_error:
  fixes farm :: int
  assumes "0 \<le> farm"
  shows "\<bar>binary64 (1 + binary64 (binary64 (0.5 * binary64 (of_int (farm - 1))) / (20 - 1)))
          - (1 + 0.5 * (of_int farm - 1) / 19)\<bar>
         \<le> 8 / 2 ^ 53 * \<bar>1 + 0.5 * (of_int farm - 1) / 19 :: real\<bar>"
proof -
  define x :: real where "x = 0.5 * (of_int farm - 1) / 19"
  define a1 where "a1 = binary64 (of_int (farm - 1))"
  define a2 where "a2 = binary64 (0.5 * a1)"
  define a3 where "a3 = binary64 (a2 / 19)"
  have "\<bar>of_int (farm - 1) - (of_int farm - 1)\<bar> \<le> 0 / 2 ^ 53 * \<bar>of_int farm - 1 :: real\<bar>"
    by simp
  from rel_fl [OF this] have s0: "\<bar>a1 - (of_int farm - 1)\<bar>
      \<le> 2 / 2 ^ 53 * \<bar>of_int farm - 1 :: real\<bar>"
    unfolding a1_def by simp
  have s1: "\<bar>0.5 * a1 - 0.5 * (of_int farm - 1)\<bar>
      \<le> 2 / 2 ^ 53 * \<bar>0.5 * (of_int farm - 1) :: real\<bar>"
    by (rule rel_times_const(2) [OF s0])
  from rel_fl [OF s1] have s2: "\<bar>a2 - 0.5 * (of_int farm - 1)\<bar>
      \<le> 4 / 2 ^ 53 * \<bar>0.5 * (of_int farm - 1) :: real\<bar>"
    unfolding a2_def by simp
  have s3: "\<bar>a2 / 19 - 0.5 * (of_int farm - 1) / 19\<bar>
      \<le> 4 / 2 ^ 53 * \<bar>0.5 * (of_int farm - 1) / 19 :: real\<bar>"
    by (rule rel_times_const(3) [OF s2])
  from rel_fl [OF s3] have s4: "\<bar>a3 - x\<bar> \<le> 6 / 2 ^ 53 * \<bar>x\<bar>"
    unfolding a3_def x_def by simp
  have "- (1 / 38) \<le> x"
    using assms by (simp add: x_def)
  then have xb: "\<bar>x\<bar> \<le> \<bar>1 + x\<bar>" by linarith
  have "\<bar>(1 + a3) - (1 + x)\<bar> \<le> 6 / 2 ^ 53 * \<bar>x\<bar>"
    using s4 by simp
  also have "\<dots> \<le> 6 / 2 ^ 53 * \<bar>1 + x\<bar>"
    using xb by (intro mult_left_mono) simp_all
  finally have s5: "\<bar>(1 + a3) - (1 + x)\<bar> \<le> 6 / 2 ^ 53 * \<bar>1 + x\<bar>" .
  from rel_fl [OF s5] have "\<bar>binary64 (1 + a3) - (1 + x)\<bar> \<le> 8 / 2 ^ 53 * \<bar>1 + x\<bar>"
    by simp
  then show ?thesis
    unfolding x_def a3_def a2_def a1_def by simp
qed

lemma product_error:
  fixes farm :: int and R r B b :: real
  assumes B: "\<bar>B - b\<bar> \<le> 8 / 2 ^ 53 * \<bar>b\<bar>"
    and R: "\<bar>R - r\<bar> \<le> 4 / 2 ^ 53 * \<bar>r\<bar>"
  shows "\<bar>binary64 (binary64 (binary64 (binary64 (of_int farm) * B) * R) * 100)
          - of_int farm * b * r * 100\<bar>
         \<le> 22 / 2 ^ 53 * \<bar>of_int farm * b * r * 100\<bar>"
proof -
  define F where "F = binary64 (of_int farm)"
  define P1 where "P1 = binary64 (F * B)"
  define P2 where "P2 = binary64 (P1 * R)"
  have "\<bar>of_int farm - of_int farm\<bar> \<le> 0 / 2 ^ 53 * \<bar>of_int farm :: real\<bar>"
    by simp
  from rel_fl [OF this] have f: "\<bar>F - of_int farm\<bar> \<le> 2 / 2 ^ 53 * \<bar>of_int farm :: real\<bar>"
    unfolding F_def by simp
  from rel_mult [OF f B] have s1: "\<bar>F * B - of_int farm * b\<bar>
      \<le> 11 / 2 ^ 53 * \<bar>of_int farm * b\<bar>"
    by simp
  from rel_fl [OF s1] have s2: "\<bar>P1 - of_int farm * b\<bar>
      \<le> 13 / 2 ^ 53 * \<bar>of_int farm * b\<bar>"
    unfolding P1_def by simp
  from rel_mult [OF s2 R] have s3: "\<bar>P1 * R - of_int farm * b * r\<bar>
      \<le> 18 / 2 ^ 53 * \<bar>of_int farm * b * r\<bar>"
    by simp
  from rel_fl [OF s3] have s4: "\<bar>P2 - of_int farm * b * r\<bar>
      \<le> 20 / 2 ^ 53 * \<bar>of_int farm * b * r\<bar>"
    unfolding P2_def by simp
  have s5: "\<bar>P2 * 100 - of_int farm * b * r * 100\<bar>
      \<le> 20 / 2 ^ 53 * \<bar>of_int farm * b * r * 100\<bar>"
    by (rule rel_times_const(1) [OF s4])
  from rel_fl [OF s5] have "\<bar>binary64 (P2 * 100) - of_int farm * b * r * 100\<bar>
      \<le> 22 / 2 ^ 53 * \<bar>of_int farm * b * r * 100\<bar>"
    by simp
  then show ?thesis
    unfolding P2_def P1_def F_def by simp
qed

subsection \<open>Food production\<close>

lemma rate_error:
  "\<bar>food_production_rate n c - spec_rate n c\<bar> \<le> 4 / 2 ^ 53 * \<bar>spec_rate n c\<bar>"
proof -
  define q where "q = (if mass_irrigation n then land c / 400 else land c / 500)"
  have "\<bar>q - q\<bar> \<le> 0 / 2 ^ 53 * \<bar>q\<bar>" by simp
  from rel_fl [OF this] have s0: "\<bar>binary64 q - q\<bar> \<le> 2 / 2 ^ 53 * \<bar>q\<bar>" by simp
  show ?thesis
  proof (cases "continent n = ''an''")
    case True
    have s1: "\<bar>binary64 q * 0.5 - q * 0.5\<bar> \<le> 2 / 2 ^ 53 * \<bar>q * 0.5\<bar>"
      by (rule rel_times_const(1) [OF s0])
    from rel_fl [OF s1] have s2:
      "\<bar>binary64 (binary64 q * 0.5) - q * 0.5\<bar> \<le> 4 / 2 ^ 53 * \<bar>q * 0.5\<bar>"
      by simp
    have e1: "food_production_rate n c = binary64 (binary64 q * 0.5)"
      using True by (simp add: food_production_rate_def Let_def q_def)
    have e2: "spec_rate n c = q * 0.5"
      using True by (simp add: spec_rate_def q_def)
    show ?thesis unfolding e1 e2 by (rule s2)
  next
    case False
    have "2 / 2 ^ 53 * \<bar>q\<bar> \<le> 4 / 2 ^ 53 * \<bar>q\<bar>"
      by (intro mult_right_mono) simp_all
    with s0 have "\<bar>binary64 q - q\<bar> \<le> 4 / 2 ^ 53 * \<bar>q\<bar>" by linarith
    then have s2: "\<bar>binary64 q - q\<bar> \<le> 4 / 2 ^ 53 * \<bar>q\<bar>" .
    have e1: "food_production_rate n c = binary64 q"
      using False by (simp add: food_production_rate_def Let_def q_def)
    have e2: "spec_rate n c = q"
      using False by (simp add: spec_rate_def q_def)
    show ?thesis unfolding e1 e2 by (rule s2)
  qed
qed

lemma food_product_error:
  assumes "0 \<le> farm c"
  shows "\<bar>food_product_100 n c - spec_product n c * 100\<bar>
           \<le> 22 / 2 ^ 53 * \<bar>spec_product n c * 100\<bar>"
proof -
  have B: "\<bar>improvement_specialization_bonus c - (1 + 0.5 * (of_int (farm c) - 1) / 19)\<bar>
      \<le> 8 / 2 ^ 53 * \<bar>1 + 0.5 * (of_int (farm c) - 1) / 19 :: real\<bar>"
    unfolding improvement_specialization_bonus_def by (rule bonus_error [OF assms])
  show ?thesis
    unfolding food_product_100_def spec_product_def
    by (rule product_error [OF B rate_error])
qed

lemma food_product_margin:
  assumes "0 \<le> farm c"
  shows "\<bar>food_product_100 n c - spec_product n c * 100\<bar> \<le> \<bar>spec_product n c * 100\<bar> / 2 ^ 48"
proof -
  have "22 / 2 ^ 53 * \<bar>spec_product n c * 100\<bar> \<le> 1 / 2 ^ 48 * \<bar>spec_product n c * 100\<bar>"
    by (intro mult_right_mono) simp_all
  then show ?thesis using food_product_error [OF assms, of n] by simp
qed

lemma base_is_hundredth: "\<exists>k::int. base_food_production n c = of_int k / 100"
  unfolding base_food_production_def by blast

lemma base_near_product:
  assumes "0 \<le> farm c"
  shows "\<bar>base_food_production n c - spec_product n c\<bar> \<le> 1 / 200 + \<bar>spec_product n c\<bar> / 2 ^ 48"
proof -
  define P where "P = food_product_100 n c"
  define x where "x = spec_product n c"
  have m: "\<bar>P - x * 100\<bar> \<le> \<bar>x * 100\<bar> / 2 ^ 48"
    unfolding P_def x_def by (rule food_product_margin [OF assms])
  have r: "\<bar>of_int (py_round P) - P\<bar> \<le> 1 / 2"
    by (rule py_round_near)
  have k: "\<bar>of_int (py_round P) - x * 100\<bar> \<le> 1 / 2 + \<bar>x * 100\<bar> / 2 ^ 48"
    using m r by linarith
  have "of_int (py_round P) / 100 - x = (of_int (py_round P) - x * 100) / 100"
    by (simp add: diff_divide_distrib)
  then have "\<bar>of_int (py_round P) / 100 - x\<bar> = \<bar>(of_int (py_round P) - x * 100) / 100\<bar>"
    by (rule arg_cong)
  also have "\<dots> = \<bar>of_int (py_round P) - x * 100\<bar> / 100"
    by (simp only: abs_divide abs_numeral)
  also have "\<dots> \<le> (1 / 2 + \<bar>x * 100\<bar> / 2 ^ 48) / 100"
    using k by (intro divide_right_mono) simp_all
  also have "\<dots> = 1 / 200 + \<bar>x\<bar> / 2 ^ 48"
    by (simp add: abs_mult add_divide_distrib)
  finally show ?thesis
    unfolding base_food_production_def P_def x_def .
qed

lemma base_away_from_tie:
  assumes "0 \<le> farm c"
    and "\<bar>spec_product n c * 100\<bar> / 2 ^ 48
           < \<bar>spec_product n c * 100 - of_int \<lfloor>spec_product n c * 100\<rfloor> - 1 / 2\<bar>"
  shows "base_food_production n c = spec_base_production n c"
proof -
  have "py_round (food_product_100 n c) = py_round (spec_product n c * 100)"
    using food_product_margin [OF assms(1), of n] assms(2)
    by (intro py_round_stable) linarith
  then show ?thesis
    by (simp add: base_food_production_def spec_base_production_def round_2dp_py_round)
qed

lemma seasonal_modifier_spec: "seasonal_modifier n gi = spec_seasonal n gi"
  by (simp add: seasonal_modifier_def spec_seasonal_def hemisphere_def spec_southern_def)

lemma continent_radiation_spec: "continent_radiation n gi = spec_continent_radiation n gi"
  by (simp add: continent_radiation_def spec_continent_radiation_def)

lemma radiation_penalty_spec: "radiation_penalty n gi = spec_radiation_penalty n gi"
  by (cases "fallout_shelter n")
    (simp_all add: radiation_penalty_def spec_radiation_penalty_def radiation_index_def
      fallout_shelter_multiplier_def continent_radiation_spec field_simps)

lemma city_step_food:
  "fst (city_step n gi td (p, i) c) Food
     = p Food - population_formula td c + food_production n gi c * 12"
  by (simp add: city_step_def Let_def)

lemma food_production_composed:
  "food_production n gi c
     = max (base_food_production n c * spec_seasonal n gi * (1 + spec_radiation_penalty n gi)) 0"
  by (simp add: food_production_def seasonal_modifier_spec radiation_penalty_spec)


lemma binary64_one: "binary64 1 = 1"
  using binary64_scaled [of 1 52] by (simp add: py_round_def)

lemma bonus_one_farm:
  assumes "farm c = 1"
  shows "improvement_specialization_bonus c = 1"
  by (simp add: improvement_specialization_bonus_def assms binary64_zero binary64_one)

lemma one_farm_product:
  assumes "farm c = 1"
  shows "food_product_100 n c
           = binary64 (binary64 (food_production_rate n c) * 100)"
  by (simp add: food_product_100_def assms bonus_one_farm binary64_one)

lemma tie_base: "base_food_production irrigated_nation tie_city = 0.55"
proof -
  define r0 :: real where "r0 = 4908923593833841 / 2 ^ 53"
  define v :: real where "v = 7670193115365377 / 2 ^ 47"
  have q: "land tie_city / 400 = 109 / 200"
    by (simp add: tie_city_def)
  have "binary64 (109 / 200) = r0"
    using binary64_scaled [of "109 / 200" 53] by (simp add: py_round_def Let_def r0_def)
  then have rate: "food_production_rate irrigated_nation tie_city = r0"
    by (simp add: food_production_rate_def Let_def irrigated_nation_def plain_nation_def q)
  have idem: "binary64 r0 = r0"
    using binary64_scaled [of r0 53] by (simp add: py_round_def Let_def r0_def)
  have f: "farm tie_city = 1"
    by (simp add: tie_city_def)
  have "binary64 (r0 * 100) = v"
    using binary64_scaled [of "r0 * 100" 47] by (simp add: py_round_def Let_def r0_def v_def)
  then have "food_product_100 irrigated_nation tie_city = v"
    unfolding one_farm_product [OF f] rate idem .
  moreover have "py_round v = 55"
    by (simp add: py_round_def Let_def v_def)
  ultimately show ?thesis
    by (simp add: base_food_production_def)
qed

lemma low_tie_base: "base_food_production irrigated_nation low_tie_city = 0.02"
proof -
  define r0 :: real where "r0 = 7205759403792794 / 2 ^ 58"
  have q: "land low_tie_city / 400 = 1 / 40"
    by (simp add: low_tie_city_def)
  have "binary64 (1 / 40) = r0"
    using binary64_scaled [of "1 / 40" 58] by (simp add: py_round_def Let_def r0_def)
  then have rate: "food_production_rate irrigated_nation low_tie_city = r0"
    by (simp add: food_production_rate_def Let_def irrigated_nation_def plain_nation_def q)
  have idem: "binary64 r0 = r0"
    using binary64_scaled [of r0 58] by (simp add: py_round_def Let_def r0_def)
  have f: "farm low_tie_city = 1"
    by (simp add: low_tie_city_def)
  have "binary64 (r0 * 100) = 5 / 2"
    using binary64_scaled [of "r0 * 100" 51] by (simp add: py_round_def Let_def r0_def)
  then have p: "food_product_100 irrigated_nation low_tie_city = 5 / 2"
    unfolding one_farm_product [OF f] rate idem .
  have "py_round (5 / 2) = 2"
    by (simp add: py_round_def Let_def)
  then show ?thesis
    unfolding base_food_production_def p by simp
qed

lemma scenario_product:
  assumes "\<not> mass_irrigation n" "continent n \<noteq> ''an''" "land c = 2000" "farm c = 10"
  shows "spec_product n c = 940 / 19"
  using assms by (simp add: spec_product_def spec_rate_def)

lemma scenario_base:
  assumes "\<not> mass_irrigation n" "continent n \<noteq> ''an''" "land c = 2000" "farm c = 10"
  shows "base_food_production n c = 49.47"
proof -
  have x: "spec_product n c = 940 / 19"
    using assms by (rule scenario_product)
  have "base_food_production n c = spec_base_production n c"
  proof (rule base_away_from_tie)
    show "0 \<le> farm c" using assms(4) by simp
    show "\<bar>spec_product n c * 100\<bar> / 2 ^ 48
           < \<bar>spec_product n c * 100 - of_int \<lfloor>spec_product n c * 100\<rfloor> - 1 / 2\<bar>"
      unfolding x by simp
  qed
  also have "\<dots> = 49.47"
    unfolding spec_base_production_def x by (simp add: round_2dp_def Let_def)
  finally show ?thesis .
qed

text \<open>
  Claim C1, as amended.  One pass of the city loop changes the food entry by the food
  demand and by the daily food production, which is the base production times the
  seasonal modifier (0.8, 1 or 1.2 by hemisphere and month, 1 in Antarctica) times one
  plus the radiation penalty, clamped at zero, times 12; the base production is rounded to
  a hundredth before the modifiers are applied.  The rounding is applied to the binary64
  product of farms, specialization, rate and 100: for a non-negative farm count the base
  is within 0.005 of the exact product, up to \<open>2\<^sup>-\<^sup>4\<^sup>8\<close> of it, and it is the exact
  product rounded to two decimals, so that the production is the composed formula of
  step 4, whenever 100 times the exact product is farther from a half-integer than
  \<open>2\<^sup>-\<^sup>4\<^sup>8\<close> of its size.  For a city with land 2000 and ten farms in a Northern,
  non-Antarctic nation without mass irrigation or fallout shelter, in January, the base
  is 49.47 and the production is \<open>max (49.47 * 0.8 * (1 - radiation / 1000)) 0 * 12\<close>.
\<close>

theorem food_production_binary64:
  "fst (city_step n gi td (p, i) c) Food
     = p Food - population_formula td c
       + max (base_food_production n c * spec_seasonal n gi * (1 + spec_radiation_penalty n gi)) 0
         * 12
   \<and> (\<exists>k::int. base_food_production n c = of_int k / 100)
   \<and> (0 \<le> farm c
        \<longrightarrow> \<bar>base_food_production n c - spec_product n c\<bar>
              \<le> 1 / 200 + \<bar>spec_product n c\<bar> / 2 ^ 48)
   \<and> (0 \<le> farm c
        \<and> \<bar>spec_product n c * 100\<bar> / 2 ^ 48
            < \<bar>spec_product n c * 100 - of_int \<lfloor>spec_product n c * 100\<rfloor> - 1 / 2\<bar>
        \<longrightarrow> base_food_production n c = spec_base_production n c
            \<and> fst (city_step n gi td (p, i) c) Food
                = p Food - population_formula td c + spec_daily_food n gi c)
   \<and> (\<not> mass_irrigation n \<and> \<not> fallout_shelter n
        \<and> continent n \<notin> {''an'', ''sa'', ''as'', ''af''}
        \<and> land c = 2000 \<and> farm c = 10 \<and> game_date_month gi = 1
        \<longrightarrow> fst (city_step n gi td (p, i) c) Food
              = p Food - population_formula td c
                + max (49.47 * 0.8
                       * (1 - (spec_continent_radiation n gi + rad_global (radiation gi)) / 1000))
                    0 * 12)"
proof (intro conjI impI)
  show step: "fst (city_step n gi td (p, i) c) Food
     = p Food - population_formula td c
       + max (base_food_production n c * spec_seasonal n gi * (1 + spec_radiation_penalty n gi)) 0
         * 12"
    by (simp only: city_step_food food_production_composed)
  show "\<exists>k::int. base_food_production n c = of_int k / 100"
    by (rule base_is_hundredth)
  show "\<bar>base_food_production n c - spec_product n c\<bar> \<le> 1 / 200 + \<bar>spec_product n c\<bar> / 2 ^ 48"
    if "0 \<le> farm c"
    using that by (rule base_near_product)
  {
    assume a: "0 \<le> farm c
        \<and> \<bar>spec_product n c * 100\<bar> / 2 ^ 48
            < \<bar>spec_product n c * 100 - of_int \<lfloor>spec_product n c * 100\<rfloor> - 1 / 2\<bar>"
    show b: "base_food_production n c = spec_base_production n c"
      using a by (intro base_away_from_tie) simp_all
    show "fst (city_step n gi td (p, i) c) Food
                = p Food - population_formula td c + spec_daily_food n gi c"
      unfolding step b spec_daily_food_def ..
  }
  {
    assume a: "\<not> mass_irrigation n \<and> \<not> fallout_shelter n
        \<and> continent n \<notin> {''an'', ''sa'', ''as'', ''af''}
        \<and> land c = 2000 \<and> farm c = 10 \<and> game_date_month gi = 1"
    then have b: "base_food_production n c = 49.47"
      by (intro scenario_base) auto
    from a have s: "spec_seasonal n gi = 0.8"
      by (simp add: spec_seasonal_def spec_southern_def)
    from a have r: "spec_radiation_penalty n gi
        = - (spec_continent_radiation n gi + rad_global (radiation gi)) / 1000"
      by (simp add: spec_radiation_penalty_def)
    show "fst (city_step n gi td (p, i) c) Food
              = p Food - population_formula td c
                + max (49.47 * 0.8
                       * (1 - (spec_continent_radiation n gi + rad_global (radiation gi)) / 1000))
                    0 * 12"
      unfolding step b s r by (simp add: field_simps)
  }
qed

theorem food_production_binary64_witness:
  "fst (city_step plain_nation (calm_game 1) 0 (initial_production, initial_income) farm_city) Food
     = 394.912"
  using food_production_binary64
    [of plain_nation "calm_game 1" 0 initial_production initial_income farm_city]
  by (simp add: plain_nation_def calm_game_def farm_city_def empty_city_def initial_production_def
      population_formula_def base_population_def city_age_modifier_def ln_age_def age_days_def
      spec_continent_radiation_def)

text \<open>
  At an exact tie the binary64 product decides.  With one farm, mass irrigation and land
  218 the exact product is 0.545, which rounds to the even hundredth 0.54 and gives 6.48
  food in April without radiation; the binary64 product times 100 lies just above 54.5,
  the engine's base is 0.55 and it adds 6.6.  With land 10 the exact product is 0.025,
  the binary64 product times 100 is 2.5 and the engine's base is 0.02, where rounding a
  tie upwards gives 0.03: no rule for ties on the exact product agrees with the engine
  at both.
\<close>

theorem food_rounding_tie_counterexample:
  "spec_product irrigated_nation tie_city = 0.545
   \<and> spec_base_production irrigated_nation tie_city = 0.54
   \<and> base_food_production irrigated_nation tie_city = 0.55
   \<and> spec_daily_food irrigated_nation (calm_game 4) tie_city = 6.48
   \<and> fst (city_step irrigated_nation (calm_game 4) 0 (initial_production, initial_income) tie_city)
        Food = 6.6
   \<and> spec_product irrigated_nation low_tie_city = 0.025
   \<and> of_int \<lfloor>spec_product irrigated_nation low_tie_city * 100 + 1 / 2\<rfloor> / 100 = (0.03 :: real)
   \<and> base_food_production irrigated_nation low_tie_city = 0.02"
proof (intro conjI)
  show x: "spec_product irrigated_nation tie_city = 0.545"
    by (simp add: spec_product_def spec_rate_def irrigated_nation_def plain_nation_def
        tie_city_def empty_city_def)
  show b: "spec_base_production irrigated_nation tie_city = 0.54"
    unfolding spec_base_production_def x by (simp add: round_2dp_def Let_def)
  show "base_food_production irrigated_nation tie_city = 0.55"
    by (rule tie_base)
  have s: "spec_seasonal irrigated_nation (calm_game 4) = 1"
    by (simp add: spec_seasonal_def irrigated_nation_def plain_nation_def calm_game_def)
  have r: "spec_radiation_penalty irrigated_nation (calm_game 4) = 0"
    by (simp add: spec_radiation_penalty_def spec_continent_radiation_def irrigated_nation_def
        plain_nation_def calm_game_def)
  show "spec_daily_food irrigated_nation (calm_game 4) tie_city = 6.48"
    unfolding spec_daily_food_def b s r by simp
  have d: "population_formula 0 tie_city = 0"
    by (simp add: population_formula_def base_population_def tie_city_def empty_city_def)
  show "fst (city_step irrigated_nation (calm_game 4) 0 (initial_production, initial_income) tie_city)
        Food = 6.6"
    unfolding city_step_food food_production_composed tie_base s r d
    by (simp add: initial_production_def)
  show y: "spec_product irrigated_nation low_tie_city = 0.025"
    by (simp add: spec_product_def spec_rate_def irrigated_nation_def plain_nation_def
        low_tie_city_def empty_city_def)
  show "of_int \<lfloor>spec_product irrigated_nation low_tie_city * 100 + 1 / 2\<rfloor> / 100 = (0.03 :: real)"
    unfolding y by simp
  show "base_food_production irrigated_nation low_tie_city = 0.02"
    by (rule low_tie_base)
qed

subsection \<open>Outcomes of \<^verbatim>\<open>calculate_nation_revenue\<close>\<close>








lemma nation_revenue_report_iff:
  "calculate_nation_revenue e i = Returned (Inr r)
     \<longleftrightarrow> (\<exists>n gi color_bonuses alliance_color.
            fetch_nation_data e i = Returned (Some n)
            \<and> fetch_game_info e = Returned (Some gi)
            \<and> fetch_color_data e = Returned color_bonuses
            \<and> lookup_alliance_color e n = Returned alliance_color
            \<and> r = build_revenue n gi color_bonuses (get_pnw_market_prices (price_inputs e))
                    alliance_color (today e))"
  by (auto simp add: calculate_nation_revenue_def Let_def split: outcome.splits option.splits)

lemma alliance_revenue_report_iff:
  "calculate_alliance_revenue e a = Returned (Inr rep)
     \<longleftrightarrow> (\<exists>ad gi color_bonuses.
            fetch_alliance_data e a = Returned (Some ad)
            \<and> fetch_game_info e = Returned (Some gi)
            \<and> fetch_color_data e = Returned color_bonuses
            \<and> rep = alliance_revenue_of (calculate_nation_revenue e) ad)"
  by (auto simp add: calculate_alliance_revenue_def Let_def split: outcome.splits option.splits)




end
